theory Spec2Isabelle
  imports Main "HOL-Library.AList"
begin

section \<open>JavaScript values used by the components\<close>

text \<open>
  A JavaScript string is a \<open>string\<close>; its characters are read as code units below 256.
  A value that is a string or \<open>undefined\<close> is a \<open>string option\<close>.

  A plain object used as a dictionary (\<open>answers\<close>, \<open>feedbacks\<close>, \<open>grades\<close>,
  \<open>techStackGrades\<close>) is the association list of its own properties in insertion order:
  \<open>{...prev, [k]: v}\<close> is \<open>AList.update k v prev\<close> (an existing key keeps its place, a
  new key goes last) and \<open>Object.keys(obj).length\<close> is \<open>length obj\<close>. A read \<open>obj[k]\<close>
  of a key that is not an own property falls through to \<open>Object.prototype\<close>: for the
  names in \<open>objectPrototypeKeys\<close> it yields a member of the prototype (a function, or
  the prototype itself for \<open>__proto__\<close>), which is truthy, is not a string and has no
  \<open>trim\<close>; for every other name it yields \<open>undefined\<close>.
\<close>

datatype js_value = Undefined | Str string | PrototypeMember

definition objectPrototypeKeys :: "string list" where
  "objectPrototypeKeys =
     [''constructor'', ''__defineGetter__'', ''__defineSetter__'', ''hasOwnProperty'',
      ''__lookupGetter__'', ''__lookupSetter__'', ''isPrototypeOf'',
      ''propertyIsEnumerable'', ''toString'', ''valueOf'', ''__proto__'',
      ''toLocaleString'']"

definition js_get :: "(string \<times> string) list \<Rightarrow> string \<Rightarrow> js_value" where
  \<comment> \<open>\<open>obj[k]\<close>\<close>
  "js_get obj k =
     (case map_of obj k of
        Some v \<Rightarrow> Str v
      | None \<Rightarrow> if k \<in> set objectPrototypeKeys then PrototypeMember else Undefined)"

definition js :: "string option \<Rightarrow> js_value" where
  \<comment> \<open>a string or \<open>undefined\<close> as a value\<close>
  "js v = (case v of None \<Rightarrow> Undefined | Some s \<Rightarrow> Str s)"

definition isWhiteSpace :: "char \<Rightarrow> bool" where
  \<comment> \<open>WhiteSpace and LineTerminator code units below 256: TAB, LF, VT, FF, CR, SP, NBSP.\<close>
  "isWhiteSpace c = (let n = (of_char c :: nat) in (9 \<le> n \<and> n \<le> 13) \<or> n = 32 \<or> n = 160)"

definition trim :: "string \<Rightarrow> string" where
  \<comment> \<open>\<open>String.prototype.trim\<close>\<close>
  "trim s = rev (dropWhile isWhiteSpace (rev (dropWhile isWhiteSpace s)))"

definition truthy :: "js_value \<Rightarrow> bool" where
  \<comment> \<open>\<open>undefined\<close> and \<open>''\<close> are falsy; every other string and every object is truthy\<close>
  "truthy v = (case v of Undefined \<Rightarrow> False | Str s \<Rightarrow> s \<noteq> [] | PrototypeMember \<Rightarrow> True)"

definition js_or :: "js_value \<Rightarrow> js_value \<Rightarrow> js_value" where
  \<comment> \<open>\<open>a || b\<close>\<close>
  "js_or a b = (if truthy a then a else b)"

definition or_default :: "string option \<Rightarrow> string \<Rightarrow> string" where
  \<comment> \<open>\<open>a || 'literal'\<close> for \<open>a\<close> a string or \<open>undefined\<close>\<close>
  "or_default a d = (case a of None \<Rightarrow> d | Some s \<Rightarrow> if s = [] then d else s)"

section \<open>Data exchanged with the backend\<close>

record techQuestion =
  question :: string
  technology :: string

record questionSet =
  general_questions :: "string list"
  tech_questions :: "techQuestion list"
  tech_stack :: "string list"

record qa_pair =
  qa_question :: string
  qa_answer :: js_value
  qa_feedback :: js_value

text \<open>
  One element of \<open>qa_pairs\<close> as \<open>handleFinalEvaluation\<close> builds it. Its \<open>answer\<close> and
  \<open>feedback\<close> are what \<open>answers[q] || ...\<close> and \<open>feedbacks[q] || ...\<close> evaluate to, so
  they can be a member of \<open>Object.prototype\<close> instead of a string.
\<close>

type_synonym blob = "nat list"

datatype request =
    GenerateQuestions string int string
  | TranscribeAudio blob
  | EvaluateAnswer string string "string option"
  | FinalEvaluation string "qa_pair list" string string


record transcribe_body =
  transcript :: "string option"

datatype transcribe_outcome =
    TranscribeThrows string
  | TranscribeResponse "transcribe_body option"

text \<open>
  \<open>TranscribeThrows m\<close>: \<open>axios.post\<close> rejects with message \<open>m\<close>.
  \<open>TranscribeResponse None\<close>: a response with no \<open>data\<close>;
  \<open>TranscribeResponse (Some b)\<close>: a response whose body may lack \<open>transcript\<close>.
\<close>

record eval_body =
  grade :: int
  feedback :: string

datatype eval_outcome =
    EvalThrows
  | EvalResponse eval_body

record evaluation_body =
  success :: bool
  error :: "string option"
  overall_score :: int
  strengths :: string
  areas_for_improvement :: string
  technical_assessment :: string
  recommendations :: string

datatype final_outcome =
    FinalThrows string
  | FinalResponse evaluation_body

section \<open>Asynchronous handlers\<close>

text \<open>
  An \<open>async\<close> handler runs to its first \<open>await\<close> and is resumed with the answer of the
  environment. \<open>Returned s\<close>: the handler returned in state \<open>s\<close> without awaiting.
  \<open>Threw s m\<close>: it threw an exception with message \<open>m\<close> in state \<open>s\<close> before any
  \<open>await\<close> and outside every \<open>try\<close>, so the promise it returned is rejected.
  \<open>Awaiting s k\<close>: it is suspended in state \<open>s\<close>; when the answer \<open>r\<close> arrives in the
  then current state \<open>s'\<close>, the rest of the handler yields \<open>k r s'\<close> (the state setters of
  the rest are functional updates or constants, so they act on \<open>s'\<close>; what the rest reads
  from its closure is fixed in \<open>k\<close>).
\<close>

datatype ('s, 'r) async =
    Returned 's
  | Threw 's string
  | Awaiting 's "'r \<Rightarrow> 's \<Rightarrow> 's"

fun suspended :: "('s, 'r) async \<Rightarrow> 's" where
  \<comment> \<open>the state the handler leaves behind when control goes back to the event loop\<close>
  "suspended (Returned s) = s"
| "suspended (Threw s m) = s"
| "suspended (Awaiting s k) = s"

fun in_flight :: "('s, 'r) async \<Rightarrow> bool" where
  "in_flight (Returned s) = False"
| "in_flight (Threw s m) = False"
| "in_flight (Awaiting s k) = True"

fun resume :: "('s, 'r) async \<Rightarrow> 'r \<Rightarrow> 's \<Rightarrow> 's" where
  \<comment> \<open>the answer arrives in state \<open>s'\<close>\<close>
  "resume (Returned s) r s' = s'"
| "resume (Threw s m) r s' = s'"
| "resume (Awaiting s k) r s' = k r s'"

fun complete :: "('s, 'r) async \<Rightarrow> 'r \<Rightarrow> 's" where
  \<comment> \<open>the answer arrives before anything else happens\<close>
  "complete (Returned s) r = s"
| "complete (Threw s m) r = s"
| "complete (Awaiting s k) r = k r s"

section \<open>QuestionsPanel.jsx\<close>

datatype recorder_state = Inactive | Recording

record recorder =
  rec_state :: recorder_state
  rec_question :: string
  rec_techQuestions :: "techQuestion list"
  rec_answers :: "(string \<times> string) list"
  tracks_live :: bool

text \<open>
  A \<open>MediaRecorder\<close> with its stream. Its \<open>onstop\<close> closure was created by the call
  \<open>startRecording(question)\<close> of one render: \<open>rec_question\<close> is that \<open>question\<close>,
  and \<open>rec_techQuestions\<close> and \<open>rec_answers\<close> are the \<open>techQuestions\<close> and
  \<open>answers\<close> of that render, which the \<open>handleSubmit\<close> of the closure reads.
  \<open>tracks_live\<close> says whether the tracks of its stream are still capturing.
\<close>

record panel =
  questions :: questionSet
  jobDescription :: string
  candidateName :: string
  answers :: "(string \<times> string) list"
  feedbacks :: "(string \<times> string) list"
  techStackGrades :: "(string \<times> int) list"
  isRecording :: bool
  activeQuestion :: "string option"
  isEvaluating :: bool
  evaluation :: "evaluation_body option"
  grades :: "(string \<times> int) list"
  mediaRecorder :: "recorder option"
  unreferenced :: "recorder list"
  audioChunks :: "blob list"
  yearsExperience :: string
  requests :: "request list"
  alerts :: "string list"

text \<open>
  The props, the \<open>useState\<close> cells and the two refs of the component, and what it did to
  the outside: \<open>requests\<close> is the log of the \<open>axios.post\<close> calls issued, \<open>alerts\<close> the
  log of the \<open>alert\<close> calls. \<open>mediaRecorder\<close> is the recorder that
  \<open>mediaRecorder.current\<close> refers to; \<open>unreferenced\<close> lists the recorders that the ref
  referred to before it was overwritten: the component cannot reach them any more, but
  they go on as they were.
\<close>

definition mount :: "questionSet \<Rightarrow> string \<Rightarrow> string \<Rightarrow> panel" where
  \<comment> \<open>the initial values of the \<open>useState\<close> and \<open>useRef\<close> calls\<close>
  "mount qs jd name =
     \<lparr>questions = qs, jobDescription = jd, candidateName = name,
      answers = [], feedbacks = [], techStackGrades = [],
      isRecording = False, activeQuestion = None, isEvaluating = False,
      evaluation = None, grades = [], mediaRecorder = None, unreferenced = [],
      audioChunks = [], yearsExperience = [], requests = [], alerts = []\<rparr>"

definition rerender :: "questionSet \<Rightarrow> string \<Rightarrow> string \<Rightarrow> panel \<Rightarrow> panel" where
  \<comment> \<open>\<open>App\<close> renders the mounted panel with new props: the cells and refs keep their values\<close>
  "rerender qs jd name st = st\<lparr>questions := qs, jobDescription := jd, candidateName := name\<rparr>"

definition generalQuestions :: "panel \<Rightarrow> string list" where
  "generalQuestions st = general_questions (questions st)"

definition techQuestions :: "panel \<Rightarrow> techQuestion list" where
  "techQuestions st = tech_questions (questions st)"

definition allQuestions :: "panel \<Rightarrow> string list" where
  "allQuestions st = generalQuestions st @ map question (techQuestions st)"

definition recorders :: "panel \<Rightarrow> recorder list" where
  \<comment> \<open>every recorder created so far, the one of the ref last\<close>
  "recorders st =
     unreferenced st @ (case mediaRecorder st of None \<Rightarrow> [] | Some r \<Rightarrow> [r])"

definition activeSessions :: "panel \<Rightarrow> recorder list" where
  \<comment> \<open>the recorders that are recording\<close>
  "activeSessions st = filter (\<lambda>r. rec_state r = Recording) (recorders st)"

subsection \<open>startRecording and stopRecording\<close>

datatype media_outcome = MediaDenied | MediaStream

definition startRecording_resume ::
  "string \<Rightarrow> techQuestion list \<Rightarrow> (string \<times> string) list \<Rightarrow> media_outcome \<Rightarrow> panel \<Rightarrow>
    panel" where
  \<comment> \<open>the handler after \<open>await navigator.mediaDevices.getUserMedia\<close>; \<open>tqs\<close> and
      \<open>ans\<close> are the \<open>techQuestions\<close> and \<open>answers\<close> of the render whose
      \<open>startRecording\<close> this is\<close>
  "startRecording_resume q tqs ans m st =
     (case m of
        MediaDenied \<Rightarrow>
          st\<lparr>alerts := alerts st @
            [''Microphone access denied. Please allow microphone access to record your answers.'']\<rparr>
      | MediaStream \<Rightarrow>
          st\<lparr>mediaRecorder :=
               Some \<lparr>rec_state = Recording, rec_question = q, rec_techQuestions = tqs,
                     rec_answers = ans, tracks_live = True\<rparr>,
             unreferenced :=
               unreferenced st @ (case mediaRecorder st of None \<Rightarrow> [] | Some r \<Rightarrow> [r]),
             audioChunks := [],
             activeQuestion := Some q,
             isRecording := True\<rparr>)"

definition startRecording :: "string \<Rightarrow> panel \<Rightarrow> (panel, media_outcome) async" where
  "startRecording q st =
     Awaiting st (startRecording_resume q (techQuestions st) (answers st))"


definition stopRecording :: "panel \<Rightarrow> panel" where
  \<comment> \<open>\<open>mediaRecorder.current.stop()\<close> queues the \<open>stop\<close> event, handled by \<open>onstop\<close> below\<close>
  "stopRecording st =
     (case mediaRecorder st of
        Some r \<Rightarrow>
          if isRecording st
          then st\<lparr>mediaRecorder := Some (r\<lparr>rec_state := Inactive, tracks_live := False\<rparr>),
                  isRecording := False,
                  activeQuestion := None\<rparr>
          else st
      | None \<Rightarrow> st)"


subsection \<open>handleSubmit\<close>

definition handleSubmit_resume ::
  "string \<Rightarrow> techQuestion option \<Rightarrow> eval_outcome \<Rightarrow> panel \<Rightarrow> panel" where
  \<comment> \<open>the handler after \<open>await axios.post(".../evaluate-answer", ...)\<close>\<close>
  "handleSubmit_resume q techQuestion res st =
     (case res of
        EvalThrows \<Rightarrow>
          st\<lparr>alerts := alerts st @ [''Failed to evaluate answer. Please try again.'']\<rparr>
      | EvalResponse d \<Rightarrow>
          (let st1 = st\<lparr>feedbacks := AList.update q (feedback d) (feedbacks st),
                         grades := AList.update q (grade d) (grades st)\<rparr>
           in case techQuestion of
                Some tq \<Rightarrow>
                  st1\<lparr>techStackGrades :=
                        AList.update (technology tq) (grade d) (techStackGrades st1)\<rparr>
              | None \<Rightarrow> st1))"

definition handleSubmit_of ::
  "techQuestion list \<Rightarrow> (string \<times> string) list \<Rightarrow> string \<Rightarrow> string option \<Rightarrow> panel \<Rightarrow>
    (panel, eval_outcome) async" where
  \<comment> \<open>\<open>handleSubmit(question, answerText)\<close> of the render whose \<open>techQuestions\<close> and
      \<open>answers\<close> are \<open>tqs\<close> and \<open>ans\<close>; \<open>answer.trim\<close> is not a function when \<open>answer\<close>
      is a member of \<open>Object.prototype\<close>, and the call is outside the \<open>try\<close>\<close>
  "handleSubmit_of tqs ans q answerText st =
     (case js_or (js answerText) (js_get ans q) of
        Undefined \<Rightarrow>
          Returned (st\<lparr>alerts := alerts st @ [''Please provide an answer before submitting.'']\<rparr>)
      | PrototypeMember \<Rightarrow> Threw st ''answer.trim is not a function''
      | Str answer \<Rightarrow>
          if answer = [] \<or> trim answer = []
          then Returned (st\<lparr>alerts := alerts st @
                 [''Please provide an answer before submitting.'']\<rparr>)
          else
            (let techQuestion = find (\<lambda>tq. question tq = q) tqs in
             Awaiting
               (st\<lparr>requests := requests st @
                     [EvaluateAnswer q answer (map_option technology techQuestion)]\<rparr>)
               (handleSubmit_resume q techQuestion)))"

definition handleSubmit :: "string \<Rightarrow> string option \<Rightarrow> panel \<Rightarrow> (panel, eval_outcome) async" where
  \<comment> \<open>\<open>handleSubmit\<close> of the current render\<close>
  "handleSubmit q answerText st = handleSubmit_of (techQuestions st) (answers st) q answerText st"

subsection \<open>The stop event of the recorder\<close>

definition onstop_send :: "panel \<Rightarrow> panel" where
  \<comment> \<open>the \<open>onstop\<close> closure up to \<open>await axios.post(".../transcribe-audio", ...)\<close>\<close>
  "onstop_send st = st\<lparr>requests := requests st @ [TranscribeAudio (concat (audioChunks st))]\<rparr>"

definition transcription_failed :: "string \<Rightarrow> panel \<Rightarrow> panel" where
  \<comment> \<open>the \<open>catch\<close> of the \<open>onstop\<close> closure\<close>
  "transcription_failed m st = st\<lparr>alerts := alerts st @ [''Failed to transcribe audio: '' @ m]\<rparr>"

definition onstop_transcribed ::
  "string \<Rightarrow> techQuestion list \<Rightarrow> (string \<times> string) list \<Rightarrow> transcribe_outcome \<Rightarrow> panel \<Rightarrow>
    (panel, eval_outcome) async" where
  \<comment> \<open>the \<open>onstop\<close> closure for \<open>question\<close> of the render whose \<open>techQuestions\<close> and
      \<open>answers\<close> are \<open>tqs\<close> and \<open>ans\<close>, from the answer of the transcription to
      \<open>await handleSubmit(question, transcription)\<close>; an exception of \<open>handleSubmit\<close> is
      caught by the \<open>catch\<close> of the closure\<close>
  "onstop_transcribed q tqs ans tres st =
     (case tres of
        TranscribeThrows m \<Rightarrow> Returned (transcription_failed m st)
      | TranscribeResponse None \<Rightarrow>
          Returned (transcription_failed ''Invalid response format from server'' st)
      | TranscribeResponse (Some b) \<Rightarrow>
          if \<not> truthy (js (transcript b))
          then Returned (transcription_failed ''Invalid response format from server'' st)
          else
            (let transcription = the (transcript b);
                 st2 = st\<lparr>answers := AList.update q transcription (answers st)\<rparr>
             in case handleSubmit_of tqs ans q (Some transcription) st2 of
                  Returned s \<Rightarrow> Returned s
                | Threw s m \<Rightarrow> Returned (transcription_failed m s)
                | Awaiting s k \<Rightarrow> Awaiting s k))"

definition onstop_of ::
  "string \<Rightarrow> techQuestion list \<Rightarrow> (string \<times> string) list \<Rightarrow> transcribe_outcome \<Rightarrow>
    eval_outcome \<Rightarrow> panel \<Rightarrow> panel" where
  \<comment> \<open>the whole \<open>onstop\<close> closure, with the answers of its two awaits\<close>
  "onstop_of q tqs ans tres eres st =
     complete (onstop_transcribed q tqs ans tres (onstop_send st)) eres"

definition onstop ::
  "string \<Rightarrow> transcribe_outcome \<Rightarrow> eval_outcome \<Rightarrow> panel \<Rightarrow> panel" where
  \<comment> \<open>the stop event of a recorder for \<open>question\<close> that was started in a render with the
      \<open>techQuestions\<close> and \<open>answers\<close> of the present state\<close>
  "onstop q tres eres st = onstop_of q (techQuestions st) (answers st) tres eres st"


subsection \<open>handleFinalEvaluation\<close>

definition or_literal :: "js_value \<Rightarrow> string \<Rightarrow> js_value" where
  \<comment> \<open>\<open>obj[k] || 'literal'\<close>\<close>
  "or_literal v d = js_or v (Str d)"

definition qaPairs :: "panel \<Rightarrow> qa_pair list" where
  "qaPairs st =
     map (\<lambda>q. \<lparr>qa_question = q,
                qa_answer = or_literal (js_get (answers st) q) ''No answer provided'',
                qa_feedback = or_literal (js_get (feedbacks st) q) ''''\<rparr>)
       (allQuestions st)"

definition handleFinalEvaluation_resume :: "final_outcome \<Rightarrow> panel \<Rightarrow> panel" where
  \<comment> \<open>the handler after \<open>await axios.post(".../final-evaluation", ...)\<close>: the rest of the
      \<open>try\<close>, the \<open>catch\<close> and the \<open>finally\<close>\<close>
  "handleFinalEvaluation_resume res st =
     (let st1 =
        (case res of
           FinalThrows m \<Rightarrow> st\<lparr>alerts := alerts st @ [''Error: '' @ m]\<rparr>
         | FinalResponse d \<Rightarrow>
             if success d then st\<lparr>evaluation := Some d\<rparr>
             else st\<lparr>alerts := alerts st @
                    [''Error: '' @ or_default (error d) ''Failed to generate evaluation'']\<rparr>)
      in st1\<lparr>isEvaluating := False\<rparr>)"

definition handleFinalEvaluation :: "panel \<Rightarrow> (panel, final_outcome) async" where
  "handleFinalEvaluation st =
     (if length (answers st) = 0
      then Returned (st\<lparr>alerts := alerts st @
             [''Please answer at least one question before final evaluation.'']\<rparr>)
      else
        Awaiting
          (st\<lparr>isEvaluating := True,
              requests := requests st @
                [FinalEvaluation (jobDescription st) (qaPairs st) (candidateName st)
                   (yearsExperience st)]\<rparr>)
          handleFinalEvaluation_resume)"

subsection \<open>The buttons\<close>

text \<open>
  A click on a button runs its \<open>onClick\<close> handler unless the button is rendered
  \<open>disabled\<close>; a click on a disabled button does nothing. The recording slot of a
  question shows \<open>Stop Recording\<close> when \<open>isRecording && activeQuestion === q\<close> and
  \<open>Record Answer\<close> (with \<open>disabled={isRecording}\<close>) otherwise.
\<close>

datatype button = StopRecordingButton | RecordAnswerButton bool

definition recordingSlot :: "string \<Rightarrow> panel \<Rightarrow> button" where
  "recordingSlot q st =
     (if isRecording st \<and> activeQuestion st = Some q then StopRecordingButton
      else RecordAnswerButton (isRecording st))"

definition clickRecordAnswer :: "string \<Rightarrow> panel \<Rightarrow> (panel, media_outcome) async" where
  \<comment> \<open>a click on \<open>Record Answer\<close> of question \<open>q\<close>; nothing to click when the slot shows
      \<open>Stop Recording\<close>\<close>
  "clickRecordAnswer q st =
     (case recordingSlot q st of
        StopRecordingButton \<Rightarrow> Returned st
      | RecordAnswerButton disabled \<Rightarrow> if disabled then Returned st else startRecording q st)"

definition clickStopRecording :: "string \<Rightarrow> panel \<Rightarrow> panel" where
  "clickStopRecording q st =
     (case recordingSlot q st of
        StopRecordingButton \<Rightarrow> stopRecording st
      | RecordAnswerButton disabled \<Rightarrow> st)"

definition clickSubmitAnswer :: "string \<Rightarrow> panel \<Rightarrow> (panel, eval_outcome) async" where
  \<comment> \<open>\<open>onClick={() => handleSubmit(q)}\<close>, \<open>disabled={!answers[q]}\<close>\<close>
  "clickSubmitAnswer q st =
     (if \<not> truthy (js_get (answers st) q) then Returned st else handleSubmit q None st)"

definition clickFinalEvaluation :: "panel \<Rightarrow> (panel, final_outcome) async" where
  \<comment> \<open>\<open>disabled={isEvaluating || Object.keys(answers).length === 0}\<close>\<close>
  "clickFinalEvaluation st =
     (if isEvaluating st \<or> length (answers st) = 0 then Returned st
      else handleFinalEvaluation st)"

subsection \<open>The events of the panel\<close>




section \<open>JDInput (src/unnamed/part_001)\<close>

text \<open>
  \<open>parseInt\<close> with no radix: leading white space is skipped, then an optional sign, then
  an optional \<open>0x\<close> prefix (radix 16, else radix 10), then the longest run of digits of
  the radix. \<open>None\<close> is \<open>NaN\<close> (no digit). The result is an \<open>int\<close>: the rounding of
  results beyond \<open>2^53\<close> to a double is not modelled.
\<close>

definition digitValue :: "char \<Rightarrow> nat option" where
  "digitValue c =
     (let n = (of_char c :: nat) in
      if 48 \<le> n \<and> n \<le> 57 then Some (n - 48)
      else if 97 \<le> n \<and> n \<le> 122 then Some (n - 87)
      else if 65 \<le> n \<and> n \<le> 90 then Some (n - 55)
      else None)"

definition isDigit :: "nat \<Rightarrow> char \<Rightarrow> bool" where
  "isDigit R c = (case digitValue c of None \<Rightarrow> False | Some d \<Rightarrow> d < R)"

definition parseInt :: "string \<Rightarrow> int option" where
  "parseInt inputString =
     (let S = dropWhile isWhiteSpace inputString;
          sign = (if take 1 S = ''-'' then - 1 else 1 :: int);
          S1 = (if take 1 S = ''+'' \<or> take 1 S = ''-'' then drop 1 S else S);
          hex = (take 2 S1 = ''0x'' \<or> take 2 S1 = ''0X'');
          R = (if hex then 16 else 10 :: nat);
          S2 = (if hex then drop 2 S1 else S1);
          Z = takeWhile (isDigit R) S2
      in if Z = [] then None
         else Some (sign * int (foldl (\<lambda>acc c. acc * R + the (digitValue c)) 0 Z)))"

datatype generate_outcome =
    GenerateThrows
  | GenerateResponse "questionSet option"

text \<open>
  \<open>GenerateResponse None\<close>: a response whose body has no \<open>questions\<close>;
  \<open>GenerateThrows\<close>: the request fails.
\<close>

record jdInput =
  jd :: string
  jd_candidateName :: string
  techStacks :: "string list"
  numQuestions :: int
  jd_yearsExperience :: string
  app_questions :: "questionSet option"
  app_jobDescription :: string
  app_candidateName :: string
  jd_requests :: "request list"
  jd_alerts :: "string list"

text \<open>
  The \<open>useState\<close> cells of \<open>JDInput\<close> (\<open>jd_candidateName\<close> and
  \<open>jd_yearsExperience\<close> are its \<open>candidateName\<close> and \<open>yearsExperience\<close>), the cells of
  \<open>App\<close> that its props \<open>setQuestions\<close>, \<open>setJobDescription\<close> and
  \<open>onCandidateNameChange\<close> write, and the logs of its requests and alerts.
\<close>

definition jdInput_mount :: jdInput where
  "jdInput_mount =
     \<lparr>jd = [], jd_candidateName = [], techStacks = [], numQuestions = 5,
      jd_yearsExperience = [], app_questions = None, app_jobDescription = [],
      app_candidateName = [], jd_requests = [], jd_alerts = []\<rparr>"

definition onChange_jd :: "string \<Rightarrow> jdInput \<Rightarrow> jdInput" where
  "onChange_jd v st = st\<lparr>jd := v\<rparr>"

definition onChange_candidateName :: "string \<Rightarrow> jdInput \<Rightarrow> jdInput" where
  "onChange_candidateName v st = st\<lparr>jd_candidateName := v\<rparr>"

definition onChange_numQuestions :: "string \<Rightarrow> jdInput \<Rightarrow> jdInput" where
  \<comment> \<open>\<open>setNumQuestions(parseInt(e.target.value) || 5)\<close>: \<open>NaN\<close> and \<open>0\<close> are falsy\<close>
  "onChange_numQuestions v st =
     st\<lparr>numQuestions := (case parseInt v of None \<Rightarrow> 5 | Some n \<Rightarrow> if n = 0 then 5 else n)\<rparr>"

definition onChange_yearsExperience :: "string \<Rightarrow> jdInput \<Rightarrow> jdInput" where
  "onChange_yearsExperience v st = st\<lparr>jd_yearsExperience := v\<rparr>"

definition handleGenerate_resume :: "generate_outcome \<Rightarrow> jdInput \<Rightarrow> jdInput" where
  "handleGenerate_resume res st =
     (let failed = (\<lambda>s. s\<lparr>jd_alerts := jd_alerts s @
                          [''Failed to generate questions. Please try again.'']\<rparr>)
      in case res of
           GenerateThrows \<Rightarrow> failed st
         | GenerateResponse None \<Rightarrow> failed (st\<lparr>app_questions := None\<rparr>)
         | GenerateResponse (Some questionsData) \<Rightarrow>
             st\<lparr>app_questions := Some questionsData,
                techStacks := tech_stack questionsData\<rparr>)"

definition handleGenerate :: "jdInput \<Rightarrow> (jdInput, generate_outcome) async" where
  "handleGenerate st =
     (if trim (jd st) = []
      then Returned (st\<lparr>jd_alerts := jd_alerts st @ [''Please enter a job description'']\<rparr>)
      else if trim (jd_candidateName st) = []
      then Returned (st\<lparr>jd_alerts := jd_alerts st @ [''Please enter the candidate's name'']\<rparr>)
      else
        Awaiting
          (st\<lparr>app_jobDescription := jd st,
              app_candidateName := jd_candidateName st,
              jd_requests := jd_requests st @
                [GenerateQuestions (jd st) (numQuestions st) (jd_yearsExperience st)]\<rparr>)
          handleGenerate_resume)"

definition clickGenerateQuestions :: "jdInput \<Rightarrow> (jdInput, generate_outcome) async" where
  \<comment> \<open>\<open>disabled={!jd.trim() || !candidateName.trim()}\<close>\<close>
  "clickGenerateQuestions st =
     (if trim (jd st) = [] \<or> trim (jd_candidateName st) = [] then Returned st
      else handleGenerate st)"

section \<open>AudioUploader.jsx\<close>

record audioUploader =
  up_transcript :: "string option"
  up_requests :: "request list"
  up_alerts :: "string list"
  up_rejections :: "string list"

text \<open>
  \<open>up_transcript\<close> is the \<open>transcript\<close> cell (\<open>None\<close> is \<open>undefined\<close>).
  \<open>handleUpload\<close> has no \<open>try\<close>: an exception rejects the promise the handler
  returns, which nothing observes; \<open>up_rejections\<close> logs these. The component never
  calls \<open>alert\<close>, so \<open>up_alerts\<close> never grows.
\<close>

definition audioUploader_mount :: audioUploader where
  "audioUploader_mount =
     \<lparr>up_transcript = Some [], up_requests = [], up_alerts = [], up_rejections = []\<rparr>"

definition handleUpload_resume :: "transcribe_outcome \<Rightarrow> audioUploader \<Rightarrow> audioUploader" where
  "handleUpload_resume res st =
     (case res of
        TranscribeThrows m \<Rightarrow> st\<lparr>up_rejections := up_rejections st @ [m]\<rparr>
      | TranscribeResponse None \<Rightarrow> st\<lparr>up_rejections := up_rejections st @ [''TypeError'']\<rparr>
      | TranscribeResponse (Some b) \<Rightarrow> st\<lparr>up_transcript := transcript b\<rparr>)"

definition handleUpload :: "blob \<Rightarrow> audioUploader \<Rightarrow> (audioUploader, transcribe_outcome) async" where
  "handleUpload file st =
     Awaiting (st\<lparr>up_requests := up_requests st @ [TranscribeAudio file]\<rparr>) handleUpload_resume"

section \<open>App (src/unnamed/part_000)\<close>

text \<open>
  \<open>App\<close> holds \<open>questions\<close>, \<open>jobDescription\<close> and \<open>candidateName\<close> (the \<open>app_\<close> fields
  of \<open>jdInput\<close>) and renders one \<open>QuestionsPanel\<close> with them as props whenever
  \<open>questions\<close> has a key. The panel is mounted by the first such render and only given
  new props by a later one: nothing resets its cells when the Question Set changes.
\<close>

definition App_render :: "jdInput \<Rightarrow> panel option \<Rightarrow> panel option" where
  "App_render i mounted =
     (case app_questions i of
        None \<Rightarrow> None
      | Some qs \<Rightarrow>
          (case mounted of
             None \<Rightarrow> Some (mount qs (app_jobDescription i) (app_candidateName i))
           | Some st \<Rightarrow> Some (rerender qs (app_jobDescription i) (app_candidateName i) st)))"

section \<open>Evaluations in flight\<close>

text \<open>
  Several \<open>evaluate-answer\<close> requests can be in flight at once, and their answers can
  arrive in any order. In a session on one Question Set, \<open>Transcribed q t\<close> is the stop
  handler of a recorder for question \<open>q\<close> receiving the transcript \<open>t\<close>,
  \<open>SubmitClicked q\<close> is a click on \<open>Submit Answer\<close> of \<open>q\<close>; when the handler awaits
  its evaluation, its continuation is put last in the list of pending ones.
  \<open>Responded n res\<close> gives the answer \<open>res\<close> to the \<open>n\<close>-th pending continuation.
\<close>

datatype evaluation_event =
    Transcribed string string
  | SubmitClicked string
  | Responded nat eval_outcome

type_synonym evaluating = "panel \<times> (eval_outcome \<Rightarrow> panel \<Rightarrow> panel) list"

fun pend :: "(panel, eval_outcome) async \<Rightarrow> (eval_outcome \<Rightarrow> panel \<Rightarrow> panel) list \<Rightarrow> evaluating" where
  "pend (Returned s) ks = (s, ks)"
| "pend (Threw s m) ks = (s, ks)"
| "pend (Awaiting s k) ks = (s, ks @ [k])"

fun evaluation_step :: "evaluation_event \<Rightarrow> evaluating \<Rightarrow> evaluating" where
  "evaluation_step (Transcribed q t) (st, ks) =
     pend (onstop_transcribed q (techQuestions st) (answers st)
             (TranscribeResponse (Some \<lparr>transcript = Some t\<rparr>)) (onstop_send st)) ks"
| "evaluation_step (SubmitClicked q) (st, ks) = pend (clickSubmitAnswer q st) ks"
| "evaluation_step (Responded n res) (st, ks) =
     (if n < length ks then ((ks ! n) res st, take n ks @ drop (Suc n) ks) else (st, ks))"

fun evaluations :: "evaluation_event list \<Rightarrow> evaluating \<Rightarrow> evaluating" where
  "evaluations [] w = w"
| "evaluations (e # es) w = evaluations es (evaluation_step e w)"

definition one_by_one :: "(string \<times> string \<times> eval_body) list \<Rightarrow> evaluation_event list" where
  \<comment> \<open>each answer is transcribed and submitted after the evaluation of the one before has
      arrived\<close>
  "one_by_one xs =
     concat (map (\<lambda>(q, t, d). [Transcribed q t, Responded 0 (EvalResponse d)]) xs)"

text \<open>
  The states of such a session: the Question Set is \<open>tqs\<close>, the answers stored are
  \<open>ans\<close>, and the pending continuations are those of \<open>handleSubmit\<close> for the
  questions \<open>ps\<close>, in order.
\<close>

definition pending_for ::
  "techQuestion list \<Rightarrow> (eval_outcome \<Rightarrow> panel \<Rightarrow> panel) list \<Rightarrow> string list \<Rightarrow> bool" where
  "pending_for tqs ks ps =
     list_all2 (\<lambda>k q. k = handleSubmit_resume q (find (\<lambda>tq. question tq = q) tqs)) ks ps"

definition session ::
  "techQuestion list \<Rightarrow> (string \<rightharpoonup> string) \<Rightarrow> string list \<Rightarrow> evaluating \<Rightarrow> bool" where
  "session tqs ans ps w =
     (techQuestions (fst w) = tqs \<and> map_of (answers (fst w)) = ans \<and> pending_for tqs (snd w) ps)"

text \<open>
  The aggregate as the specification words it. \<open>received_spec es ans ps\<close> lists, in the
  order of arrival, the question and the body of every evaluation that the events \<open>es\<close>
  deliver, when \<open>ans\<close> are the answers stored and \<open>ps\<close> the questions whose evaluation
  is pending at the start: a transcript that is not empty is stored, and an answer is
  sent for evaluation when it is not blank. \<open>mostRecentGrade_spec tqs evs t\<close> is the
  grade of the last evaluation in \<open>evs\<close> of a technical question tagged \<open>t\<close>, if any.
\<close>

fun received_spec ::
  "evaluation_event list \<Rightarrow> (string \<rightharpoonup> string) \<Rightarrow> string list \<Rightarrow> (string \<times> eval_body) list" where
  "received_spec [] ans ps = []"
| "received_spec (Transcribed q t # es) ans ps =
     (if t = [] then received_spec es ans ps
      else received_spec es (ans(q \<mapsto> t)) (if list_all isWhiteSpace t then ps else ps @ [q]))"
| "received_spec (SubmitClicked q # es) ans ps =
     received_spec es ans
       (case ans q of
          None \<Rightarrow> ps
        | Some a \<Rightarrow> if list_all isWhiteSpace a then ps else ps @ [q])"
| "received_spec (Responded n res # es) ans ps =
     (if n < length ps
      then (case res of EvalThrows \<Rightarrow> [] | EvalResponse d \<Rightarrow> [(ps ! n, d)])
           @ received_spec es ans (take n ps @ drop (Suc n) ps)
      else received_spec es ans ps)"

definition tagged :: "techQuestion list \<Rightarrow> string \<Rightarrow> string \<Rightarrow> bool" where
  "tagged tqs q t = (\<exists>tq \<in> set tqs. question tq = q \<and> technology tq = t)"

fun mostRecentGrade_spec ::
  "techQuestion list \<Rightarrow> (string \<times> eval_body) list \<Rightarrow> string \<Rightarrow> int option" where
  "mostRecentGrade_spec tqs [] t = None"
| "mostRecentGrade_spec tqs ((q, d) # evs) t =
     (case mostRecentGrade_spec tqs evs t of
        Some g \<Rightarrow> Some g
      | None \<Rightarrow> if tagged tqs q t then Some (grade d) else None)"

section \<open>An example session\<close>

text \<open>
  The Question Set of the round-trip scenario: two general questions and three technical
  questions tagged Python, Go, Python. \<open>example_answered\<close> is the panel after the third
  technical question was recorded, transcribed and graded.
\<close>

definition example_questions :: questionSet where
  "example_questions =
     \<lparr>general_questions = [''Tell me about yourself'', ''Describe a caching bug you fixed''],
      tech_questions =
        [\<lparr>question = ''What is a decorator?'', technology = ''Python''\<rparr>,
         \<lparr>question = ''How do goroutines work?'', technology = ''Go''\<rparr>,
         \<lparr>question = ''Explain the GIL'', technology = ''Python''\<rparr>],
      tech_stack = [''Python'', ''Go'']\<rparr>"

definition example_panel :: panel where
  "example_panel = mount example_questions ''Senior backend engineer'' ''Alice''"

definition example_recording :: panel where
  "example_recording =
     complete (clickRecordAnswer ''Explain the GIL'' example_panel) MediaStream"

definition example_answered :: panel where
  "example_answered =
     onstop ''Explain the GIL''
       (TranscribeResponse (Some \<lparr>transcript = Some ''A lock''\<rparr>))
       (EvalResponse \<lparr>grade = 7, feedback = ''Good''\<rparr>)
       (clickStopRecording ''Explain the GIL'' example_recording)"

definition example_evaluating :: panel where
  "example_evaluating = suspended (clickFinalEvaluation example_answered)"

definition example_evaluation :: evaluation_body where
  "example_evaluation =
     \<lparr>success = True, error = None, overall_score = 70, strengths = ''Clear'',
      areas_for_improvement = ''Depth'', technical_assessment = ''Solid'',
      recommendations = ''Hire''\<rparr>"

definition example_blank :: panel where
  \<comment> \<open>the transcription of the third technical question came back as one space\<close>
  "example_blank =
     onstop ''Explain the GIL''
       (TranscribeResponse (Some \<lparr>transcript = Some '' ''\<rparr>))
       EvalThrows
       (clickStopRecording ''Explain the GIL'' example_recording)"


definition example_typed :: jdInput where
  \<comment> \<open>the form with candidate Alice and the job description typed in\<close>
  "example_typed =
     onChange_candidateName ''Alice'' (onChange_jd ''Senior backend engineer'' jdInput_mount)"

definition example_one_by_one :: "evaluation_event list" where
  \<comment> \<open>the three technical questions, each graded before the next is submitted\<close>
  "example_one_by_one =
     one_by_one
       [(''What is a decorator?'', ''A wrapper'', \<lparr>grade = 4, feedback = ''Vague''\<rparr>),
        (''How do goroutines work?'', ''Cheaply'', \<lparr>grade = 7, feedback = ''Good''\<rparr>),
        (''Explain the GIL'', ''A lock'', \<lparr>grade = 9, feedback = ''Precise''\<rparr>)]"

definition example_resubmitted :: "evaluation_event list" where
  \<comment> \<open>the answer to the first technical question is graded, submitted again by a click
      and graded again\<close>
  "example_resubmitted =
     [Transcribed ''What is a decorator?'' ''A wrapper'',
      Responded 0 (EvalResponse \<lparr>grade = 4, feedback = ''Vague''\<rparr>),
      SubmitClicked ''What is a decorator?'',
      Responded 0 (EvalResponse \<lparr>grade = 8, feedback = ''Better''\<rparr>)]"

definition example_overtaken :: "evaluation_event list" where
  \<comment> \<open>the three technical questions are transcribed and submitted in their order; the
      evaluations of the second and the third arrive before that of the first\<close>
  "example_overtaken =
     [Transcribed ''What is a decorator?'' ''A wrapper'',
      Transcribed ''How do goroutines work?'' ''Cheaply'',
      Transcribed ''Explain the GIL'' ''A lock'',
      Responded 1 (EvalResponse \<lparr>grade = 7, feedback = ''Good''\<rparr>),
      Responded 1 (EvalResponse \<lparr>grade = 9, feedback = ''Precise''\<rparr>),
      Responded 0 (EvalResponse \<lparr>grade = 4, feedback = ''Vague''\<rparr>)]"

definition example_same_text :: questionSet where
  \<comment> \<open>two technical questions with one text and different tags\<close>
  "example_same_text =
     \<lparr>general_questions = [],
      tech_questions =
        [\<lparr>question = ''How do you test it?'', technology = ''Python''\<rparr>,
         \<lparr>question = ''How do you test it?'', technology = ''Go''\<rparr>],
      tech_stack = [''Python'', ''Go'']\<rparr>"

definition example_same_text_events :: "evaluation_event list" where
  \<comment> \<open>the answer recorded on the card of the second of them is transcribed and graded\<close>
  "example_same_text_events =
     [Transcribed ''How do you test it?'' ''With unit tests'',
      Responded 0 (EvalResponse \<lparr>grade = 5, feedback = ''Thin''\<rparr>)]"

definition example_next_questions :: questionSet where
  \<comment> \<open>the Question Set of a second job description\<close>
  "example_next_questions =
     \<lparr>general_questions = [''Why this role?''],
      tech_questions = [\<lparr>question = ''What is a closure?'', technology = ''JavaScript''\<rparr>],
      tech_stack = [''JavaScript'']\<rparr>"

definition example_generated :: jdInput where
  \<comment> \<open>the first Question Set has arrived\<close>
  "example_generated =
     complete (clickGenerateQuestions example_typed) (GenerateResponse (Some example_questions))"

definition example_generated_again :: jdInput where
  \<comment> \<open>another job description is typed in and its Question Set has arrived\<close>
  "example_generated_again =
     complete (clickGenerateQuestions (onChange_jd ''Frontend engineer'' example_generated))
       (GenerateResponse (Some example_next_questions))"

definition example_regenerated :: "panel option" where
  \<comment> \<open>the panel with the answer to a question of the first set, rendered with the second\<close>
  "example_regenerated = App_render example_generated_again (Some example_answered)"

definition example_prototype_questions :: questionSet where
  \<comment> \<open>a Question Set with a question whose text names a member of \<open>Object.prototype\<close>\<close>
  "example_prototype_questions =
     \<lparr>general_questions = [''constructor'', ''Tell me about yourself''],
      tech_questions = [],
      tech_stack = []\<rparr>"

definition example_prototype :: panel where
  \<comment> \<open>the second question of that set is answered, the first is not\<close>
  "example_prototype =
     onstop ''Tell me about yourself''
       (TranscribeResponse (Some \<lparr>transcript = Some ''I build backends''\<rparr>))
       (EvalResponse \<lparr>grade = 6, feedback = ''Fine''\<rparr>)
       (clickStopRecording ''Tell me about yourself''
          (complete (clickRecordAnswer ''Tell me about yourself''
             (mount example_prototype_questions ''Senior backend engineer'' ''Alice''))
             MediaStream))"

definition example_two_clicks :: panel where
  \<comment> \<open>\<open>Record Answer\<close> is clicked for two questions before \<open>getUserMedia\<close> answers the
      first click; then both calls are granted\<close>
  "example_two_clicks =
     (let first = clickRecordAnswer ''Explain the GIL'' example_panel;
          second = clickRecordAnswer ''How do goroutines work?'' (suspended first)
      in resume second MediaStream (resume first MediaStream (suspended second)))"

section \<open>White space\<close>

lemma trim_blank:
  assumes "list_all isWhiteSpace s"
  shows "trim s = []"
proof -
  from assms have d: "dropWhile isWhiteSpace s = []"
    by (simp add: list_all_iff)
  show ?thesis
    unfolding trim_def d by simp
qed

lemma trim_Nil_blank:
  assumes "trim s = []"
  shows "list_all isWhiteSpace s"
proof -
  from assms have all: "\<forall>c \<in> set (dropWhile isWhiteSpace s). isWhiteSpace c"
    by (simp add: trim_def)
  have "dropWhile isWhiteSpace s = []"
  proof (cases "dropWhile isWhiteSpace s")
    case Nil
    then show ?thesis .
  next
    case (Cons c cs)
    then have "\<not> isWhiteSpace c"
      using hd_dropWhile [of isWhiteSpace s] by simp
    moreover have "isWhiteSpace c"
      using all Cons by simp
    ultimately show ?thesis by simp
  qed
  then show ?thesis
    by (simp add: list_all_iff)
qed

lemma trim_Nil_iff: "trim s = [] \<longleftrightarrow> list_all isWhiteSpace s"
  using trim_blank trim_Nil_blank by blast

section \<open>The recording controller\<close>

text \<open>
  Claim C9. Calling \<open>stopRecording\<close> when no recording session is active (the
  \<open>isRecording\<close> flag is false, or there is no media recorder) is a no-op: the guard
  of its only \<open>if\<close> fails, no statement runs so nothing can throw, and the whole state
  (recording flag, active question, media recorder and everything else) is unchanged.
\<close>

theorem stopRecording_idle_noop:
  assumes "\<not> isRecording st \<or> mediaRecorder st = None"
  shows "stopRecording st = st
    \<and> isRecording (stopRecording st) = isRecording st
    \<and> activeQuestion (stopRecording st) = activeQuestion st
    \<and> mediaRecorder (stopRecording st) = mediaRecorder st"
proof -
  have "stopRecording st = st"
    using assms by (auto simp: stopRecording_def split: option.splits)
  then show ?thesis by simp
qed

theorem stopRecording_idle_noop_witness:
  "\<not> isRecording example_panel \<and> stopRecording example_panel = example_panel
   \<and> (let st = stopRecording example_recording
      in \<not> isRecording st \<and> mediaRecorder st \<noteq> None \<and> stopRecording st = st)"
proof -
  let ?st = "stopRecording example_recording"
  have a: "\<not> isRecording example_panel"
    by (simp add: example_panel_def mount_def)
  have b: "\<not> isRecording ?st \<and> mediaRecorder ?st \<noteq> None"
    by (simp add: example_recording_def example_panel_def mount_def clickRecordAnswer_def
        recordingSlot_def startRecording_def startRecording_resume_def stopRecording_def)
  show ?thesis
    using a b stopRecording_idle_noop [of example_panel] stopRecording_idle_noop [of ?st]
    by (simp add: Let_def)
qed

text \<open>When a session is active, \<open>stopRecording\<close> ends the one the ref refers to.\<close>

lemma stopRecording_active:
  assumes "isRecording st" and "mediaRecorder st = Some r"
  shows "\<not> isRecording (stopRecording st) \<and> activeQuestion (stopRecording st) = None
    \<and> mediaRecorder (stopRecording st) = Some (r\<lparr>rec_state := Inactive, tracks_live := False\<rparr>)
    \<and> unreferenced (stopRecording st) = unreferenced st"
  using assms by (simp add: stopRecording_def)

lemma example_recording_eq:
  "example_recording =
     example_panel\<lparr>mediaRecorder :=
         Some \<lparr>rec_state = Recording, rec_question = ''Explain the GIL'',
               rec_techQuestions = tech_questions example_questions, rec_answers = [],
               tracks_live = True\<rparr>,
       audioChunks := [], activeQuestion := Some ''Explain the GIL'', isRecording := True\<rparr>"
  by (simp add: example_recording_def example_panel_def mount_def clickRecordAnswer_def
      recordingSlot_def startRecording_def startRecording_resume_def techQuestions_def)

text \<open>
  While \<open>isRecording\<close> is true the \<open>Record Answer\<close> button of every question is
  disabled (or replaced by \<open>Stop Recording\<close>), so a click does nothing. But the flag is
  set only after \<open>getUserMedia\<close> has answered: until then the state is as before the
  click, and a second click is accepted as the first was.
\<close>

lemma record_answer_disabled:
  assumes "isRecording st"
  shows "clickRecordAnswer q st = Returned st"
  using assms by (simp add: clickRecordAnswer_def recordingSlot_def)

lemma record_answer_while_pending:
  assumes "\<not> isRecording st"
  shows "in_flight (clickRecordAnswer q st)
    \<and> suspended (clickRecordAnswer q st) = st
    \<and> in_flight (clickRecordAnswer q' (suspended (clickRecordAnswer q st)))"
  using assms by (simp add: clickRecordAnswer_def recordingSlot_def startRecording_def)

text \<open>
  Claim C3. At most one Recording Session should be active at any instant. The code
  breaks this: \<open>startRecording\<close> has no guard of its own, and the guard of the button
  reads a flag that is set only after the \<open>await\<close>. In \<open>example_two_clicks\<close> two clicks
  on \<open>Record Answer\<close> are made before \<open>getUserMedia\<close> answers. The first grant starts
  a recorder and sets \<open>isRecording\<close>; the second grant, with \<open>isRecording\<close> already
  true, starts a second recorder and overwrites the ref, so two recorders are recording
  at once. \<open>Stop Recording\<close> then stops the second only: the first stays recording with
  its tracks live, out of reach of the component.
\<close>

theorem two_recordings_active:
  "in_flight (clickRecordAnswer ''Explain the GIL'' example_panel)
   \<and> in_flight (clickRecordAnswer ''How do goroutines work?''
        (suspended (clickRecordAnswer ''Explain the GIL'' example_panel)))
   \<and> isRecording (resume (clickRecordAnswer ''Explain the GIL'' example_panel) MediaStream
        example_panel)
   \<and> map rec_question (activeSessions example_two_clicks) =
       [''Explain the GIL'', ''How do goroutines work?'']
   \<and> length (activeSessions example_two_clicks) = 2
   \<and> isRecording example_two_clicks
   \<and> \<not> isRecording (clickStopRecording ''How do goroutines work?'' example_two_clicks)
   \<and> map (\<lambda>r. (rec_question r, rec_state r, tracks_live r))
        (recorders (clickStopRecording ''How do goroutines work?'' example_two_clicks)) =
       [(''Explain the GIL'', Recording, True), (''How do goroutines work?'', Inactive, False)]"
  by (simp add: example_two_clicks_def example_panel_def mount_def clickRecordAnswer_def
      recordingSlot_def startRecording_def startRecording_resume_def clickStopRecording_def
      stopRecording_def activeSessions_def recorders_def Let_def)

section \<open>The final evaluation\<close>

lemmas run_defs = example_panel_def example_questions_def mount_def clickStopRecording_def
  clickRecordAnswer_def recordingSlot_def startRecording_def startRecording_resume_def
  stopRecording_def onstop_def onstop_of_def onstop_send_def onstop_transcribed_def
  transcription_failed_def handleSubmit_of_def js_or_def handleSubmit_resume_def
  truthy_def js_def trim_def isWhiteSpace_def techQuestions_def Let_def

lemma example_answered_eq:
  "example_answered =
     \<lparr>questions = example_questions, jobDescription = ''Senior backend engineer'',
      candidateName = ''Alice'',
      answers = [(''Explain the GIL'', ''A lock'')],
      feedbacks = [(''Explain the GIL'', ''Good'')],
      techStackGrades = [(''Python'', 7)],
      isRecording = False, activeQuestion = None, isEvaluating = False,
      evaluation = None, grades = [(''Explain the GIL'', 7)],
      mediaRecorder =
        Some \<lparr>rec_state = Inactive, rec_question = ''Explain the GIL'',
              rec_techQuestions = tech_questions example_questions, rec_answers = [],
              tracks_live = False\<rparr>,
      unreferenced = [],
      audioChunks = [], yearsExperience = [],
      requests =
        [TranscribeAudio [], EvaluateAnswer ''Explain the GIL'' ''A lock'' (Some ''Python'')],
      alerts = []\<rparr>"
  by (simp add: example_answered_def example_recording_def run_defs)

text \<open>
  Claim C2. Final evaluation is single-flight: in every state in which \<open>isEvaluating\<close>
  is true, a trigger of the final evaluation (a click on its button, which is rendered
  disabled) is a no-op; so when the final evaluation is triggered twice while the first
  request is in flight, exactly one \<open>final-evaluation\<close> request is issued. The guard is
  the \<open>disabled\<close> attribute of the button.
\<close>

theorem final_evaluation_single_flight:
  "(isEvaluating st \<longrightarrow> clickFinalEvaluation st = Returned st)
   \<and> (\<not> isEvaluating st \<and> answers st \<noteq> [] \<longrightarrow>
        (let first = clickFinalEvaluation st;
             second = clickFinalEvaluation (suspended first)
         in in_flight first
            \<and> isEvaluating (suspended first)
            \<and> second = Returned (suspended first)
            \<and> requests (suspended second) =
                requests st @
                  [FinalEvaluation (jobDescription st) (qaPairs st) (candidateName st)
                     (yearsExperience st)]))"
  by (simp add: clickFinalEvaluation_def handleFinalEvaluation_def Let_def)

theorem final_evaluation_single_flight_witness:
  "\<not> isEvaluating example_answered
   \<and> answers example_answered \<noteq> []
   \<and> in_flight (clickFinalEvaluation example_answered)
   \<and> isEvaluating (suspended (clickFinalEvaluation example_answered))
   \<and> clickFinalEvaluation (suspended (clickFinalEvaluation example_answered)) =
       Returned (suspended (clickFinalEvaluation example_answered))
   \<and> length (requests (suspended (clickFinalEvaluation
         (suspended (clickFinalEvaluation example_answered))))) =
       length (requests example_answered) + 1"
proof -
  have a: "\<not> isEvaluating example_answered \<and> answers example_answered \<noteq> []"
    by (simp add: example_answered_eq)
  let ?first = "clickFinalEvaluation example_answered"
  let ?second = "clickFinalEvaluation (suspended ?first)"
  from a final_evaluation_single_flight [of example_answered]
  have b: "in_flight ?first" "isEvaluating (suspended ?first)"
      "?second = Returned (suspended ?first)"
      "requests (suspended ?second) =
        requests example_answered @
          [FinalEvaluation (jobDescription example_answered) (qaPairs example_answered)
             (candidateName example_answered) (yearsExperience example_answered)]"
    unfolding Let_def by blast+
  have "length (requests (suspended ?second)) = length (requests example_answered) + 1"
    unfolding b(4) by simp
  with a b(1-3) show ?thesis by blast
qed

text \<open>
  Claim C10. However the final-evaluation request completes (success, a response with
  \<open>success = false\<close>, or an exception), and in whatever state its answer arrives, the
  rest of \<open>handleFinalEvaluation\<close> leaves \<open>isEvaluating\<close> false and the answers as
  they were; so with at least one answer the next trigger issues a request again.
\<close>

theorem final_evaluation_flag_released:
  assumes "handleFinalEvaluation st = Awaiting s k"
  shows "\<not> isEvaluating (k res s')
    \<and> answers (k res s') = answers s'
    \<and> (answers s' \<noteq> [] \<longrightarrow> in_flight (clickFinalEvaluation (k res s')))"
proof -
  from assms have k: "k = handleFinalEvaluation_resume"
    by (simp add: handleFinalEvaluation_def split: if_splits)
  have flag: "\<not> isEvaluating (handleFinalEvaluation_resume res s')"
    by (simp add: handleFinalEvaluation_resume_def Let_def)
  have ans: "answers (handleFinalEvaluation_resume res s') = answers s'"
    by (cases res) (simp_all add: handleFinalEvaluation_resume_def Let_def)
  have "answers s' \<noteq> [] \<longrightarrow> in_flight (clickFinalEvaluation (handleFinalEvaluation_resume res s'))"
    using flag ans by (simp add: clickFinalEvaluation_def handleFinalEvaluation_def)
  with k flag ans show ?thesis by simp
qed

lemma example_handleFinalEvaluation:
  "handleFinalEvaluation example_answered =
     Awaiting example_evaluating handleFinalEvaluation_resume"
  by (simp add: example_evaluating_def clickFinalEvaluation_def handleFinalEvaluation_def
      example_answered_eq)

theorem final_evaluation_flag_released_witness:
  "isEvaluating example_evaluating
   \<and> \<not> isEvaluating (complete (handleFinalEvaluation example_answered)
          (FinalResponse example_evaluation))
   \<and> \<not> isEvaluating (complete (handleFinalEvaluation example_answered)
          (FinalResponse (example_evaluation\<lparr>success := False, error := Some ''quota''\<rparr>)))
   \<and> \<not> isEvaluating (complete (handleFinalEvaluation example_answered)
          (FinalThrows ''Network Error''))
   \<and> in_flight (clickFinalEvaluation (complete (handleFinalEvaluation example_answered)
          (FinalThrows ''Network Error'')))"
proof -
  note h = example_handleFinalEvaluation
  have a: "isEvaluating example_evaluating \<and> answers example_evaluating \<noteq> []"
    by (simp add: example_evaluating_def clickFinalEvaluation_def handleFinalEvaluation_def
        example_answered_eq)
  show ?thesis
    using a
      final_evaluation_flag_released [OF h, of "FinalResponse example_evaluation" example_evaluating]
      final_evaluation_flag_released [OF h,
        of "FinalResponse (example_evaluation\<lparr>success := False, error := Some ''quota''\<rparr>)"
        example_evaluating]
      final_evaluation_flag_released [OF h, of "FinalThrows ''Network Error''" example_evaluating]
    by (simp add: h)
qed

text \<open>
  What \<open>handleFinalEvaluation\<close> does: with no key in \<open>answers\<close> it returns without a
  request. With a key it issues exactly one request, whatever the answer; its
  \<open>qa_pairs\<close> list the questions of the present Question Set in order; a question with an
  own entry that is not empty carries that entry, and a question with no own entry
  carries the sentinel (the empty string for the feedback) unless its text names a
  member of \<open>Object.prototype\<close>.
\<close>

lemma qaPairs_questions: "map qa_question (qaPairs st) = allQuestions st"
  by (simp add: qaPairs_def comp_def)

lemma qaPairs_entry:
  assumes "p \<in> set (qaPairs st)"
  shows "qa_answer p = or_literal (js_get (answers st) (qa_question p)) ''No answer provided''"
    and "qa_feedback p = or_literal (js_get (feedbacks st) (qa_question p)) ''''"
  using assms by (auto simp: qaPairs_def)

lemma or_literal_cases:
  "or_literal (js_get obj k) d =
     (case map_of obj k of
        Some v \<Rightarrow> if v = [] then Str d else Str v
      | None \<Rightarrow> if k \<in> set objectPrototypeKeys then PrototypeMember else Str d)"
  by (simp add: or_literal_def js_or_def js_get_def truthy_def split: option.splits)

lemma final_evaluation_request:
  "(answers st = [] \<longrightarrow>
      \<not> in_flight (handleFinalEvaluation st)
      \<and> requests (suspended (handleFinalEvaluation st)) = requests st
      \<and> clickFinalEvaluation st = Returned st)
   \<and> (answers st \<noteq> [] \<longrightarrow>
      in_flight (handleFinalEvaluation st)
      \<and> requests (suspended (handleFinalEvaluation st)) =
          requests st @
            [FinalEvaluation (jobDescription st) (qaPairs st) (candidateName st)
               (yearsExperience st)]
      \<and> requests (complete (handleFinalEvaluation st) res) =
          requests (suspended (handleFinalEvaluation st))
      \<and> (\<not> isEvaluating st \<longrightarrow> clickFinalEvaluation st = handleFinalEvaluation st)
      \<and> map qa_question (qaPairs st) = allQuestions st
      \<and> (\<forall>p \<in> set (qaPairs st).
            (map_of (answers st) (qa_question p) = None
               \<and> qa_question p \<notin> set objectPrototypeKeys \<longrightarrow>
               qa_answer p = Str ''No answer provided'')
            \<and> (map_of (feedbacks st) (qa_question p) = None
               \<and> qa_question p \<notin> set objectPrototypeKeys \<longrightarrow>
               qa_feedback p = Str '''')
            \<and> (\<forall>a. map_of (answers st) (qa_question p) = Some a \<and> a \<noteq> [] \<longrightarrow>
                  qa_answer p = Str a)))"
proof -
  have empty: "answers st = [] \<Longrightarrow>
      \<not> in_flight (handleFinalEvaluation st)
      \<and> requests (suspended (handleFinalEvaluation st)) = requests st
      \<and> clickFinalEvaluation st = Returned st"
    by (simp add: handleFinalEvaluation_def clickFinalEvaluation_def)
  have issued: "answers st \<noteq> [] \<Longrightarrow>
      in_flight (handleFinalEvaluation st)
      \<and> requests (suspended (handleFinalEvaluation st)) =
          requests st @
            [FinalEvaluation (jobDescription st) (qaPairs st) (candidateName st)
               (yearsExperience st)]
      \<and> (\<not> isEvaluating st \<longrightarrow> clickFinalEvaluation st = handleFinalEvaluation st)"
    by (simp add: handleFinalEvaluation_def clickFinalEvaluation_def)
  have after: "requests (complete (handleFinalEvaluation st) res) =
      requests (suspended (handleFinalEvaluation st))"
    by (cases res)
      (simp_all add: handleFinalEvaluation_def handleFinalEvaluation_resume_def Let_def)
  have pairs: "\<forall>p \<in> set (qaPairs st).
            (map_of (answers st) (qa_question p) = None
               \<and> qa_question p \<notin> set objectPrototypeKeys \<longrightarrow>
               qa_answer p = Str ''No answer provided'')
            \<and> (map_of (feedbacks st) (qa_question p) = None
               \<and> qa_question p \<notin> set objectPrototypeKeys \<longrightarrow>
               qa_feedback p = Str '''')
            \<and> (\<forall>a. map_of (answers st) (qa_question p) = Some a \<and> a \<noteq> [] \<longrightarrow>
                  qa_answer p = Str a)"
    by (auto simp: qaPairs_entry or_literal_cases)
  from empty issued after pairs qaPairs_questions show ?thesis by blast
qed

lemma example_regenerated_eq:
  "example_regenerated =
     Some (rerender example_next_questions ''Frontend engineer'' ''Alice'' example_answered)"
  by (simp add: example_regenerated_def App_render_def example_generated_again_def
      example_generated_def example_typed_def clickGenerateQuestions_def handleGenerate_def
      handleGenerate_resume_def onChange_jd_def onChange_candidateName_def jdInput_mount_def
      trim_def isWhiteSpace_def Let_def)

text \<open>
  Claim C4. Final evaluation with no answered question should be rejected with no
  backend call, and every unanswered question should carry the sentinel. The code breaks
  both. Its guard counts the keys of \<open>answers\<close>, which are never reset: in
  \<open>example_regenerated\<close> the panel holds the answer to a question of the first Question
  Set and is rendered with a second one, no question of which is answered; the button
  is enabled and the request is sent, every answer the sentinel. And a read of
  \<open>answers[q]\<close> falls through to \<open>Object.prototype\<close>: in \<open>example_prototype\<close> the
  unanswered question \<open>constructor\<close> is sent with a member of the prototype as its
  answer and as its feedback, not with the sentinel and the empty string.
\<close>

theorem final_evaluation_without_answer:
  "(case example_regenerated of
      None \<Rightarrow> False
    | Some st \<Rightarrow>
        list_all (\<lambda>q. js_get (answers st) q = Undefined) (allQuestions st)
        \<and> in_flight (clickFinalEvaluation st)
        \<and> requests (suspended (clickFinalEvaluation st)) =
            [TranscribeAudio [],
             EvaluateAnswer ''Explain the GIL'' ''A lock'' (Some ''Python''),
             FinalEvaluation ''Frontend engineer''
               [\<lparr>qa_question = ''Why this role?'',
                  qa_answer = Str ''No answer provided'', qa_feedback = Str ''''\<rparr>,
                \<lparr>qa_question = ''What is a closure?'',
                  qa_answer = Str ''No answer provided'', qa_feedback = Str ''''\<rparr>]
               ''Alice'' ''''])
   \<and> map_of (answers example_prototype) ''constructor'' = None
   \<and> in_flight (clickFinalEvaluation example_prototype)
   \<and> qaPairs example_prototype =
       [\<lparr>qa_question = ''constructor'',
          qa_answer = PrototypeMember, qa_feedback = PrototypeMember\<rparr>,
        \<lparr>qa_question = ''Tell me about yourself'',
          qa_answer = Str ''I build backends'', qa_feedback = Str ''Fine''\<rparr>]"
proof -
  have regenerated:
    "list_all (\<lambda>q. js_get (answers st) q = Undefined) (allQuestions st)
        \<and> in_flight (clickFinalEvaluation st)
        \<and> requests (suspended (clickFinalEvaluation st)) =
            [TranscribeAudio [],
             EvaluateAnswer ''Explain the GIL'' ''A lock'' (Some ''Python''),
             FinalEvaluation ''Frontend engineer''
               [\<lparr>qa_question = ''Why this role?'',
                  qa_answer = Str ''No answer provided'', qa_feedback = Str ''''\<rparr>,
                \<lparr>qa_question = ''What is a closure?'',
                  qa_answer = Str ''No answer provided'', qa_feedback = Str ''''\<rparr>]
               ''Alice'' '''']"
    if "st = rerender example_next_questions ''Frontend engineer'' ''Alice'' example_answered"
    for st
    unfolding that
    by (simp add: rerender_def example_answered_eq example_next_questions_def
        allQuestions_def generalQuestions_def techQuestions_def js_get_def
        objectPrototypeKeys_def clickFinalEvaluation_def handleFinalEvaluation_def
        qaPairs_def or_literal_def js_or_def truthy_def)
  have p: "example_prototype =
     (mount example_prototype_questions ''Senior backend engineer'' ''Alice'')
       \<lparr>answers := [(''Tell me about yourself'', ''I build backends'')],
        feedbacks := [(''Tell me about yourself'', ''Fine'')],
        grades := [(''Tell me about yourself'', 6)],
        mediaRecorder :=
          Some \<lparr>rec_state = Inactive, rec_question = ''Tell me about yourself'',
                rec_techQuestions = [], rec_answers = [], tracks_live = False\<rparr>,
        requests :=
          [TranscribeAudio [], EvaluateAnswer ''Tell me about yourself'' ''I build backends'' None]\<rparr>"
    by (simp add: example_prototype_def example_prototype_questions_def
        clickStopRecording_def clickRecordAnswer_def recordingSlot_def startRecording_def
        startRecording_resume_def stopRecording_def onstop_def onstop_of_def
        onstop_send_def onstop_transcribed_def transcription_failed_def
        handleSubmit_of_def js_or_def handleSubmit_resume_def truthy_def js_def trim_def
        isWhiteSpace_def techQuestions_def mount_def Let_def)
  have prototype:
    "map_of (answers example_prototype) ''constructor'' = None
     \<and> in_flight (clickFinalEvaluation example_prototype)
     \<and> qaPairs example_prototype =
       [\<lparr>qa_question = ''constructor'',
          qa_answer = PrototypeMember, qa_feedback = PrototypeMember\<rparr>,
        \<lparr>qa_question = ''Tell me about yourself'',
          qa_answer = Str ''I build backends'', qa_feedback = Str ''Fine''\<rparr>]"
    unfolding p
    by (simp add: mount_def example_prototype_questions_def
        allQuestions_def generalQuestions_def techQuestions_def js_get_def
        objectPrototypeKeys_def clickFinalEvaluation_def handleFinalEvaluation_def
        qaPairs_def or_literal_def js_or_def truthy_def)
  from regenerated [OF refl] prototype show ?thesis
    by (simp only: example_regenerated_eq option.case)
qed

section \<open>Validation before a request\<close>

lemma handleSubmit_of_requests:
  "requests (suspended (handleSubmit_of tqs ans q a st)) =
     requests st @
       (case js_or (js a) (js_get ans q) of
          Str answer \<Rightarrow>
            if trim answer \<noteq> []
            then [EvaluateAnswer q answer
                    (map_option technology (find (\<lambda>tq. question tq = q) tqs))]
            else []
        | Undefined \<Rightarrow> []
        | PrototypeMember \<Rightarrow> [])"
  by (cases "js_or (js a) (js_get ans q)")
    (auto simp: handleSubmit_of_def Let_def trim_def)

lemma handleSubmit_of_in_flight:
  "in_flight (handleSubmit_of tqs ans q a st) \<longleftrightarrow>
     (case js_or (js a) (js_get ans q) of
        Str answer \<Rightarrow> trim answer \<noteq> []
      | Undefined \<Rightarrow> False
      | PrototypeMember \<Rightarrow> False)"
  by (cases "js_or (js a) (js_get ans q)")
    (auto simp: handleSubmit_of_def Let_def trim_def)

text \<open>
  Claim C8. Validation failures are caught before any request. When the job description
  or the candidate name is empty or white space only, \<open>handleGenerate\<close> returns without
  a request (and the button is disabled). When the answer of a question (the text
  passed to \<open>handleSubmit\<close>, else the stored answer) is missing, empty or white space
  only, \<open>handleSubmit\<close> returns without an \<open>evaluate-answer\<close> request, and so does a
  click on \<open>Submit Answer\<close>. The same holds when the answer read is a member of
  \<open>Object.prototype\<close>: \<open>handleSubmit\<close> throws before the request.
\<close>

theorem validation_blocks_requests:
  "(list_all isWhiteSpace (jd i) \<or> list_all isWhiteSpace (jd_candidateName i) \<longrightarrow>
      \<not> in_flight (handleGenerate i)
      \<and> jd_requests (suspended (handleGenerate i)) = jd_requests i
      \<and> clickGenerateQuestions i = Returned i)
   \<and> ((case js_or (js answerText) (js_get (answers st) q) of
          Undefined \<Rightarrow> True | Str a \<Rightarrow> list_all isWhiteSpace a | PrototypeMember \<Rightarrow> True) \<longrightarrow>
      \<not> in_flight (handleSubmit q answerText st)
      \<and> requests (suspended (handleSubmit q answerText st)) = requests st)
   \<and> ((case js_get (answers st) q of
          Undefined \<Rightarrow> True | Str a \<Rightarrow> list_all isWhiteSpace a | PrototypeMember \<Rightarrow> True) \<longrightarrow>
      \<not> in_flight (clickSubmitAnswer q st)
      \<and> requests (suspended (clickSubmitAnswer q st)) = requests st)"
proof -
  have gen: "list_all isWhiteSpace (jd i) \<or> list_all isWhiteSpace (jd_candidateName i) \<Longrightarrow>
      \<not> in_flight (handleGenerate i)
      \<and> jd_requests (suspended (handleGenerate i)) = jd_requests i
      \<and> clickGenerateQuestions i = Returned i"
    by (auto simp: handleGenerate_def clickGenerateQuestions_def trim_Nil_iff)
  have sub: "\<not> in_flight (handleSubmit q a s)
      \<and> requests (suspended (handleSubmit q a s)) = requests s"
    if "case js_or (js a) (js_get (answers s) q) of
          Undefined \<Rightarrow> True | Str x \<Rightarrow> list_all isWhiteSpace x | PrototypeMember \<Rightarrow> True"
    for a s
    using that
    by (cases "js_or (js a) (js_get (answers s) q)")
      (simp_all add: handleSubmit_def handleSubmit_of_requests handleSubmit_of_in_flight
        trim_Nil_iff)
  have click: "\<not> in_flight (clickSubmitAnswer q st)
      \<and> requests (suspended (clickSubmitAnswer q st)) = requests st"
    if "case js_get (answers st) q of
          Undefined \<Rightarrow> True | Str a \<Rightarrow> list_all isWhiteSpace a | PrototypeMember \<Rightarrow> True"
  proof (cases "truthy (js_get (answers st) q)")
    case True
    have "js_or (js None) (js_get (answers st) q) = js_get (answers st) q"
      by (simp add: js_or_def js_def truthy_def)
    with that sub [of None st] True show ?thesis
      by (simp add: clickSubmitAnswer_def)
  next
    case False
    then show ?thesis by (simp add: clickSubmitAnswer_def)
  qed
  from gen sub [of answerText st] click show ?thesis by blast
qed

theorem validation_blocks_requests_witness:
  "list_all isWhiteSpace (jd (onChange_jd ''   '' example_typed))
   \<and> \<not> in_flight (handleGenerate (onChange_jd ''   '' example_typed))
   \<and> jd_requests (suspended (handleGenerate (onChange_jd ''   '' example_typed))) = []
   \<and> clickGenerateQuestions (onChange_jd ''   '' example_typed) =
       Returned (onChange_jd ''   '' example_typed)
   \<and> list_all isWhiteSpace (jd_candidateName (onChange_candidateName '''' example_typed))
   \<and> \<not> in_flight (handleGenerate (onChange_candidateName '''' example_typed))
   \<and> jd_requests (suspended (handleGenerate (onChange_candidateName '''' example_typed))) = []
   \<and> map_of (answers example_panel) ''Explain the GIL'' = None
   \<and> \<not> in_flight (handleSubmit ''Explain the GIL'' None example_panel)
   \<and> requests (suspended (handleSubmit ''Explain the GIL'' None example_panel)) = []
   \<and> \<not> in_flight (handleSubmit ''Explain the GIL'' (Some '' '') example_panel)
   \<and> map_of (answers example_blank) ''Explain the GIL'' = Some '' ''
   \<and> \<not> in_flight (clickSubmitAnswer ''Explain the GIL'' example_blank)
   \<and> requests (suspended (clickSubmitAnswer ''Explain the GIL'' example_blank)) =
       [TranscribeAudio []]"
proof -
  let ?i1 = "onChange_jd ''   '' example_typed"
  let ?i2 = "onChange_candidateName '''' example_typed"
  let ?q = "''Explain the GIL''"
  have i1: "list_all isWhiteSpace (jd ?i1)" "jd_requests ?i1 = []"
    by (simp_all add: example_typed_def onChange_jd_def onChange_candidateName_def
        jdInput_mount_def isWhiteSpace_def)
  have i2: "list_all isWhiteSpace (jd_candidateName ?i2)" "jd_requests ?i2 = []"
    by (simp_all add: example_typed_def onChange_jd_def onChange_candidateName_def
        jdInput_mount_def)
  have p: "map_of (answers example_panel) ?q = None" "requests example_panel = []"
    by (simp_all add: example_panel_def mount_def)
  have p0: "js_get (answers example_panel) ?q = Undefined"
    by (simp add: p js_get_def objectPrototypeKeys_def)
  have p1: "js_or (js None) (js_get (answers example_panel) ?q) = Undefined"
    "js_or (js (Some '' '')) (js_get (answers example_panel) ?q) = Str '' ''"
    by (simp_all add: p0 js_or_def js_def truthy_def)
  have b: "map_of (answers example_blank) ?q = Some '' ''"
    "requests example_blank = [TranscribeAudio []]"
    by (simp_all add: example_blank_def example_recording_eq run_defs)
  have b0: "js_get (answers example_blank) ?q = Str '' ''"
    by (simp add: b js_get_def)
  have ws: "list_all isWhiteSpace '' ''"
    by (simp add: isWhiteSpace_def)
  show ?thesis
    using i1 i2 p p0 p1 b b0 ws
      validation_blocks_requests [of ?i1 None example_panel ?q]
      validation_blocks_requests [of ?i2 "Some '' ''" example_panel ?q]
      validation_blocks_requests [of ?i1 None example_blank ?q]
    by simp
qed

section \<open>Transcription and submission\<close>









text \<open>
  Claim C7. In \<open>QuestionsPanel\<close> a transcription response without a transcript takes
  the error path: an alert, no answer stored, no evaluation (\<open>onstop_missing_transcript\<close>
  below). \<open>handleUpload\<close> of \<open>AudioUploader\<close> has no such check: for a body without
  \<open>transcript\<close> it stores \<open>undefined\<close> as the transcript, raises nothing and shows
  nothing.
\<close>

theorem handleUpload_accepts_missing_transcript:
  "complete (handleUpload file audioUploader_mount)
       (TranscribeResponse (Some \<lparr>transcript = None\<rparr>)) =
     \<lparr>up_transcript = None, up_requests = [TranscribeAudio file], up_alerts = [],
      up_rejections = []\<rparr>"
  by (simp add: handleUpload_def handleUpload_resume_def audioUploader_mount_def)

lemma onstop_missing_transcript:
  assumes "tres = TranscribeResponse None \<or> tres = TranscribeResponse (Some \<lparr>transcript = None\<rparr>)"
  shows "onstop_of q tqs ans tres eres st =
    st\<lparr>requests := requests st @ [TranscribeAudio (concat (audioChunks st))],
       alerts := alerts st @ [''Failed to transcribe audio: Invalid response format from server'']\<rparr>"
  using assms
  by (auto simp: onstop_of_def onstop_send_def onstop_transcribed_def transcription_failed_def
      truthy_def js_def Let_def)

section \<open>The aggregate of technology grades\<close>

lemma find_question_distinct:
  assumes "distinct (map question tqs)"
  shows "find (\<lambda>tq. question tq = q) tqs = Some tq \<longleftrightarrow> tq \<in> set tqs \<and> question tq = q"
  using assms
proof (induction tqs)
  case Nil
  then show ?case by simp
next
  case (Cons x xs)
  then show ?case by (auto simp: image_iff)
qed

lemma find_question_None:
  "find (\<lambda>tq. question tq = q) tqs = None \<longleftrightarrow> (\<forall>tq \<in> set tqs. question tq \<noteq> q)"
  by (auto simp: find_None_iff)

lemma received_tag:
  assumes "distinct (map question tqs)"
  shows "tagged tqs q t \<longleftrightarrow>
    (case find (\<lambda>tq. question tq = q) tqs of None \<Rightarrow> False | Some tq \<Rightarrow> technology tq = t)"
proof (cases "find (\<lambda>tq. question tq = q) tqs")
  case None
  then have "\<forall>tq \<in> set tqs. question tq \<noteq> q"
    by (simp add: find_question_None)
  then have "\<not> tagged tqs q t"
    by (auto simp: tagged_def)
  with None show ?thesis by simp
next
  case (Some tq)
  with assms have tq: "tq \<in> set tqs" "question tq = q"
    by (simp_all add: find_question_distinct)
  have "tagged tqs q t \<longleftrightarrow> technology tq = t"
  proof
    assume "tagged tqs q t"
    then obtain tq' where "tq' \<in> set tqs" "question tq' = q" "technology tq' = t"
      by (auto simp: tagged_def)
    with assms have "find (\<lambda>tq. question tq = q) tqs = Some tq'"
      by (simp add: find_question_distinct)
    with Some \<open>technology tq' = t\<close> show "technology tq = t" by simp
  next
    assume "technology tq = t"
    with tq show "tagged tqs q t" by (auto simp: tagged_def)
  qed
  with Some show ?thesis by simp
qed

lemma resume_unchanged:
  "techQuestions (handleSubmit_resume q tq res st) = techQuestions st"
  "answers (handleSubmit_resume q tq res st) = answers st"
  by (cases res; cases tq; simp add: handleSubmit_resume_def techQuestions_def Let_def)+

lemma resume_techStackGrades:
  "map_of (techStackGrades (handleSubmit_resume q tqo res st)) =
     (case res of
        EvalThrows \<Rightarrow> map_of (techStackGrades st)
      | EvalResponse d \<Rightarrow>
          (case tqo of
             None \<Rightarrow> map_of (techStackGrades st)
           | Some tq \<Rightarrow> (map_of (techStackGrades st))(technology tq \<mapsto> grade d)))"
  by (cases res; cases tqo) (simp_all add: handleSubmit_resume_def Let_def update_conv')

lemma resume_distinct_keys:
  "distinct (map fst (techStackGrades st)) \<Longrightarrow>
   distinct (map fst (techStackGrades (handleSubmit_resume q tqo res st)))"
  by (cases res; cases tqo) (simp_all add: handleSubmit_resume_def Let_def distinct_update)

lemma pending_for_append:
  "pending_for tqs ks ps \<Longrightarrow>
   pending_for tqs (ks @ [handleSubmit_resume q (find (\<lambda>tq. question tq = q) tqs)]) (ps @ [q])"
  by (simp add: pending_for_def list_all2_appendI)

lemma step_Transcribed:
  assumes "session tqs ans ps (st, ks)" and "t \<noteq> []"
  shows "session tqs (ans(q \<mapsto> t)) (if list_all isWhiteSpace t then ps else ps @ [q])
           (evaluation_step (Transcribed q t) (st, ks))
    \<and> techStackGrades (fst (evaluation_step (Transcribed q t) (st, ks))) = techStackGrades st"
  using assms
  by (auto simp: session_def onstop_transcribed_def onstop_send_def js_def truthy_def
      handleSubmit_of_def js_or_def Let_def techQuestions_def update_conv' trim_Nil_iff
      pending_for_append)

lemma step_Transcribed_empty:
  assumes "session tqs ans ps (st, ks)"
  shows "session tqs ans ps (evaluation_step (Transcribed q []) (st, ks))
    \<and> techStackGrades (fst (evaluation_step (Transcribed q []) (st, ks))) = techStackGrades st"
  using assms
  by (auto simp: session_def onstop_transcribed_def onstop_send_def js_def truthy_def
      transcription_failed_def techQuestions_def)

lemma step_SubmitClicked:
  assumes "session tqs ans ps (st, ks)"
  shows "session tqs ans
           (case ans q of None \<Rightarrow> ps | Some a \<Rightarrow> if list_all isWhiteSpace a then ps else ps @ [q])
           (evaluation_step (SubmitClicked q) (st, ks))
    \<and> techStackGrades (fst (evaluation_step (SubmitClicked q) (st, ks))) = techStackGrades st"
proof (cases "map_of (answers st) q")
  case None
  with assms show ?thesis
    by (auto simp: session_def clickSubmitAnswer_def js_get_def truthy_def handleSubmit_def
        handleSubmit_of_def js_or_def js_def techQuestions_def)
next
  case (Some a)
  show ?thesis
  proof (cases "a = []")
    case True
    with Some assms show ?thesis
      by (auto simp: session_def clickSubmitAnswer_def js_get_def truthy_def)
  next
    case False
    with Some assms show ?thesis
      by (auto simp: session_def clickSubmitAnswer_def js_get_def truthy_def handleSubmit_def
          handleSubmit_of_def js_or_def js_def Let_def techQuestions_def trim_Nil_iff
          pending_for_append)
  qed
qed

lemma step_Responded:
  assumes "session tqs ans ps (st, ks)" and "n < length ps"
  shows "session tqs ans (take n ps @ drop (Suc n) ps) (evaluation_step (Responded n res) (st, ks))
    \<and> fst (evaluation_step (Responded n res) (st, ks)) =
        handleSubmit_resume (ps ! n) (find (\<lambda>tq. question tq = ps ! n) tqs) res st"
proof -
  from assms(1) have p: "pending_for tqs ks ps"
    by (simp add: session_def)
  then have len: "length ks = length ps"
    by (simp add: pending_for_def list_all2_lengthD)
  from p assms(2) have k: "ks ! n = handleSubmit_resume (ps ! n) (find (\<lambda>tq. question tq = ps ! n) tqs)"
    by (simp add: pending_for_def list_all2_conv_all_nth)
  from p have "pending_for tqs (take n ks @ drop (Suc n) ks) (take n ps @ drop (Suc n) ps)"
    unfolding pending_for_def
    by (intro list_all2_appendI list_all2_takeI list_all2_dropI)
  with assms len k show ?thesis
    by (simp add: session_def resume_unchanged)
qed

lemma step_Responded_none:
  assumes "session tqs ans ps (st, ks)" and "\<not> n < length ps"
  shows "evaluation_step (Responded n res) (st, ks) = (st, ks)"
proof -
  from assms(1) have "pending_for tqs ks ps"
    by (simp add: session_def)
  then have "length ks = length ps"
    unfolding pending_for_def by (rule list_all2_lengthD)
  with assms(2) show ?thesis by simp
qed

text \<open>
  One event: the state after it is again a state of a session, with the answers and the
  pending questions of the specification, and the aggregate changes only when an
  evaluation arrives.
\<close>

lemma step_session:
  assumes "distinct (map question tqs)" and "session tqs ans ps w"
  shows "\<exists>ans' ps' evs.
    session tqs ans' ps' (evaluation_step e w)
    \<and> received_spec (e # es) ans ps = evs @ received_spec es ans' ps'
    \<and> (\<forall>t. map_of (techStackGrades (fst (evaluation_step e w))) t =
          (case mostRecentGrade_spec tqs evs t of
             Some g \<Rightarrow> Some g
           | None \<Rightarrow> map_of (techStackGrades (fst w)) t))
    \<and> (distinct (map fst (techStackGrades (fst w))) \<longrightarrow>
          distinct (map fst (techStackGrades (fst (evaluation_step e w)))))"
proof -
  obtain st ks where w: "w = (st, ks)"
    by (cases w)
  note s = assms(2) [unfolded w]
  show ?thesis
  proof (cases e)
    case (Transcribed q tr)
    show ?thesis
    proof (cases "tr = []")
      case True
      from step_Transcribed_empty [OF s, of q]
      have "session tqs ans ps (evaluation_step e w)"
        and "techStackGrades (fst (evaluation_step e w)) = techStackGrades (fst w)"
        by (simp_all add: w Transcribed True del: evaluation_step.simps)
      moreover have "received_spec (e # es) ans ps = [] @ received_spec es ans ps"
        by (simp add: Transcribed True)
      ultimately show ?thesis
        by (intro exI [of _ ans] exI [of _ ps] exI [of _ "[]"]) simp
    next
      case False
      let ?ps = "if list_all isWhiteSpace tr then ps else ps @ [q]"
      from step_Transcribed [OF s False, of q]
      have "session tqs (ans(q \<mapsto> tr)) ?ps (evaluation_step e w)"
        and "techStackGrades (fst (evaluation_step e w)) = techStackGrades (fst w)"
        by (simp_all add: w Transcribed del: evaluation_step.simps)
      moreover have "received_spec (e # es) ans ps = [] @ received_spec es (ans(q \<mapsto> tr)) ?ps"
        by (simp add: Transcribed False)
      ultimately show ?thesis
        by (intro exI [of _ "ans(q \<mapsto> tr)"] exI [of _ ?ps] exI [of _ "[]"]) simp
    qed
  next
    case (SubmitClicked q)
    let ?ps = "case ans q of None \<Rightarrow> ps
      | Some a \<Rightarrow> if list_all isWhiteSpace a then ps else ps @ [q]"
    from step_SubmitClicked [OF s, of q]
    have "session tqs ans ?ps (evaluation_step e w)"
      and "techStackGrades (fst (evaluation_step e w)) = techStackGrades (fst w)"
      by (simp_all add: w SubmitClicked del: evaluation_step.simps)
    moreover have "received_spec (e # es) ans ps = [] @ received_spec es ans ?ps"
      by (simp add: SubmitClicked)
    ultimately show ?thesis
      by (intro exI [of _ ans] exI [of _ ?ps] exI [of _ "[]"]) simp
  next
    case (Responded n res)
    show ?thesis
    proof (cases "n < length ps")
      case False
      from step_Responded_none [OF s False, of res]
      have "evaluation_step e w = w"
        by (simp add: w Responded del: evaluation_step.simps)
      moreover have "received_spec (e # es) ans ps = [] @ received_spec es ans ps"
        using False by (simp add: Responded)
      ultimately show ?thesis
        using assms(2)
        by (intro exI [of _ ans] exI [of _ ps] exI [of _ "[]"]) simp
    next
      case True
      let ?ps = "take n ps @ drop (Suc n) ps"
      let ?evs = "case res of EvalThrows \<Rightarrow> [] | EvalResponse d \<Rightarrow> [(ps ! n, d)]"
      let ?tq = "find (\<lambda>tq. question tq = ps ! n) tqs"
      from step_Responded [OF s True, of res]
      have s': "session tqs ans ?ps (evaluation_step e w)"
        and f: "fst (evaluation_step e w) = handleSubmit_resume (ps ! n) ?tq res (fst w)"
        by (simp_all add: w Responded del: evaluation_step.simps)
      have r: "received_spec (e # es) ans ps = ?evs @ received_spec es ans ?ps"
        using True by (simp add: Responded)
      have g: "map_of (techStackGrades (fst (evaluation_step e w))) t =
          (case mostRecentGrade_spec tqs ?evs t of
             Some g \<Rightarrow> Some g
           | None \<Rightarrow> map_of (techStackGrades (fst w)) t)" for t
        using assms(1)
        by (simp add: f resume_techStackGrades received_tag
            split: eval_outcome.splits option.splits)
      have d: "distinct (map fst (techStackGrades (fst w))) \<longrightarrow>
          distinct (map fst (techStackGrades (fst (evaluation_step e w))))"
        by (simp add: f resume_distinct_keys)
      from s' r g d show ?thesis
        by (intro exI [of _ ans] exI [of _ ?ps] exI [of _ ?evs]) blast
    qed
  qed
qed

lemma mostRecentGrade_spec_append:
  "mostRecentGrade_spec tqs (evs @ evs') t =
     (case mostRecentGrade_spec tqs evs' t of
        Some g \<Rightarrow> Some g
      | None \<Rightarrow> mostRecentGrade_spec tqs evs t)"
  by (induction tqs evs t rule: mostRecentGrade_spec.induct) (auto split: option.splits)

lemma evaluations_lookup:
  assumes "distinct (map question tqs)" and "session tqs ans ps w"
  shows "map_of (techStackGrades (fst (evaluations es w))) t =
    (case mostRecentGrade_spec tqs (received_spec es ans ps) t of
       Some g \<Rightarrow> Some g
     | None \<Rightarrow> map_of (techStackGrades (fst w)) t)"
  using assms(2)
proof (induction es arbitrary: w ans ps)
  case Nil
  then show ?case by simp
next
  case (Cons e es)
  from step_session [OF assms(1) Cons.prems, of e es]
  obtain ans' ps' evs where s: "session tqs ans' ps' (evaluation_step e w)"
    and r: "received_spec (e # es) ans ps = evs @ received_spec es ans' ps'"
    and g: "\<And>t. map_of (techStackGrades (fst (evaluation_step e w))) t =
          (case mostRecentGrade_spec tqs evs t of
             Some g \<Rightarrow> Some g
           | None \<Rightarrow> map_of (techStackGrades (fst w)) t)"
    by blast
  have "map_of (techStackGrades (fst (evaluations (e # es) w))) t =
      map_of (techStackGrades (fst (evaluations es (evaluation_step e w)))) t"
    by simp
  also have "\<dots> =
    (case mostRecentGrade_spec tqs (received_spec es ans' ps') t of
       Some g \<Rightarrow> Some g
     | None \<Rightarrow> map_of (techStackGrades (fst (evaluation_step e w))) t)"
    by (rule Cons.IH [OF s])
  also have "\<dots> =
    (case mostRecentGrade_spec tqs (received_spec (e # es) ans ps) t of
       Some g \<Rightarrow> Some g
     | None \<Rightarrow> map_of (techStackGrades (fst w)) t)"
    unfolding r mostRecentGrade_spec_append g
    by (simp split: option.splits)
  finally show ?case .
qed

lemma evaluations_distinct_keys:
  assumes "distinct (map question tqs)" and "session tqs ans ps w"
    and "distinct (map fst (techStackGrades (fst w)))"
  shows "distinct (map fst (techStackGrades (fst (evaluations es w))))"
  using assms(2,3)
proof (induction es arbitrary: w ans ps)
  case Nil
  then show ?case by simp
next
  case (Cons e es)
  from step_session [OF assms(1) Cons.prems(1), of e es] Cons.prems(2)
  obtain ans' ps' where "session tqs ans' ps' (evaluation_step e w)"
    and "distinct (map fst (techStackGrades (fst (evaluation_step e w))))"
    by blast
  then have "distinct (map fst (techStackGrades (fst (evaluations es (evaluation_step e w)))))"
    by (rule Cons.IH)
  then show ?case by simp
qed

lemma mostRecentGrade_spec_Some:
  "mostRecentGrade_spec tqs evs t \<noteq> None \<longleftrightarrow> (\<exists>e \<in> set evs. tagged tqs (fst e) t)"
  by (induction tqs evs t rule: mostRecentGrade_spec.induct) (auto split: option.splits)

lemma one_by_one_received:
  "received_spec (one_by_one xs) ans [] =
     map (\<lambda>(q, t, d). (q, d)) (filter (\<lambda>(q, t, d). \<not> list_all isWhiteSpace t) xs)"
proof (induction xs arbitrary: ans)
  case Nil
  then show ?case by (simp add: one_by_one_def)
next
  case (Cons x xs)
  obtain q t d where x: "x = (q, t, d)"
    by (cases x)
  have split: "one_by_one (x # xs) =
      Transcribed q t # Responded 0 (EvalResponse d) # one_by_one xs"
    by (simp add: one_by_one_def x)
  show ?case
    unfolding split using Cons.IH
    by (auto simp: x)
qed

lemma mount_session: "session (tech_questions qs) Map.empty [] (mount qs j name, [])"
  by (simp add: session_def mount_def techQuestions_def pending_for_def)

text \<open>
  Claim C6, as the code has it. In a session on one Question Set whose technical
  questions have pairwise different texts, started from a freshly mounted panel, after
  any sequence of transcriptions, submit clicks and evaluation responses the aggregate
  \<open>techStackGrades\<close> maps each technology tag to the grade of the evaluation received
  last, in the order in which the responses arrive, among the technical questions with
  that tag; its keys are exactly the tags of the technical questions that have been
  evaluated, and no key occurs twice. When the answers are evaluated one by one, each
  response arriving before the next answer is submitted, the order of arrival is the
  order of submission: each tag then holds the grade of the answer submitted last among
  the technical questions with that tag.
\<close>

theorem technology_grade_aggregate:
  assumes "distinct (map question (tech_questions qs))"
  shows "map_of (techStackGrades (fst (evaluations es (mount qs j name, [])))) t =
           mostRecentGrade_spec (tech_questions qs) (received_spec es Map.empty []) t
    \<and> set (map fst (techStackGrades (fst (evaluations es (mount qs j name, []))))) =
        {t. \<exists>tq \<in> set (tech_questions qs). \<exists>e \<in> set (received_spec es Map.empty []).
              question tq = fst e \<and> technology tq = t}
    \<and> distinct (map fst (techStackGrades (fst (evaluations es (mount qs j name, [])))))
    \<and> map_of (techStackGrades (fst (evaluations (one_by_one xs) (mount qs j name, [])))) t =
        mostRecentGrade_spec (tech_questions qs)
          (map (\<lambda>(q, a, d). (q, d)) (filter (\<lambda>(q, a, d). \<not> list_all isWhiteSpace a) xs)) t"
proof -
  let ?agg = "techStackGrades (fst (evaluations es (mount qs j name, [])))"
  let ?evs = "received_spec es Map.empty []"
  note s = mount_session [of qs j name]
  have start: "techStackGrades (mount qs j name) = []"
    by (simp add: mount_def)
  have look: "map_of (techStackGrades (fst (evaluations es' (mount qs j name, [])))) t =
      mostRecentGrade_spec (tech_questions qs) (received_spec es' Map.empty []) t" for es' t
    using evaluations_lookup [OF assms s, of es' t]
    by (simp add: start split: option.splits)
  have "set (map fst ?agg) = dom (map_of ?agg)"
    by (simp add: dom_map_of_conv_image_fst)
  also have "\<dots> = {t. mostRecentGrade_spec (tech_questions qs) ?evs t \<noteq> None}"
    by (auto simp: dom_def look)
  also have "\<dots> = {t. \<exists>tq \<in> set (tech_questions qs). \<exists>e \<in> set ?evs.
      question tq = fst e \<and> technology tq = t}"
    unfolding mostRecentGrade_spec_Some tagged_def by blast
  finally have keys: "set (map fst ?agg) =
      {t. \<exists>tq \<in> set (tech_questions qs). \<exists>e \<in> set ?evs.
        question tq = fst e \<and> technology tq = t}" .
  have "distinct (map fst ?agg)"
    using evaluations_distinct_keys [OF assms s, of es] by (simp add: start)
  moreover have "map_of (techStackGrades (fst (evaluations (one_by_one xs) (mount qs j name, [])))) t =
      mostRecentGrade_spec (tech_questions qs)
        (map (\<lambda>(q, a, d). (q, d)) (filter (\<lambda>(q, a, d). \<not> list_all isWhiteSpace a) xs)) t"
    using look [of "one_by_one xs" t] by (simp add: one_by_one_received)
  ultimately show ?thesis
    using look [of es t] keys by blast
qed

lemma example_one_by_one_received:
  "received_spec example_one_by_one Map.empty [] =
     [(''What is a decorator?'', \<lparr>grade = 4, feedback = ''Vague''\<rparr>),
      (''How do goroutines work?'', \<lparr>grade = 7, feedback = ''Good''\<rparr>),
      (''Explain the GIL'', \<lparr>grade = 9, feedback = ''Precise''\<rparr>)]"
  by (simp add: example_one_by_one_def one_by_one_def isWhiteSpace_def)

theorem technology_grade_aggregate_witness:
  "distinct (map question (tech_questions example_questions))
   \<and> techStackGrades (fst (evaluations example_one_by_one (example_panel, []))) =
       [(''Python'', 9), (''Go'', 7)]
   \<and> map_of (techStackGrades (fst (evaluations example_one_by_one (example_panel, []))))
       ''Python'' = Some 9
   \<and> map_of (techStackGrades (fst (evaluations example_one_by_one (example_panel, []))))
       ''Go'' = Some 7
   \<and> set (map fst (techStackGrades (fst (evaluations example_one_by_one (example_panel, []))))) =
       {''Python'', ''Go''}
   \<and> length (techStackGrades (fst (evaluations example_one_by_one (example_panel, [])))) = 2
   \<and> techStackGrades (fst (evaluations example_resubmitted (example_panel, []))) =
       [(''Python'', 8)]
   \<and> map_of (techStackGrades (fst (evaluations example_resubmitted (example_panel, []))))
       ''Python'' = Some 8"
proof -
  let ?agg = "techStackGrades (fst (evaluations example_one_by_one (example_panel, [])))"
  let ?again = "techStackGrades (fst (evaluations example_resubmitted (example_panel, [])))"
  have a: "distinct (map question (tech_questions example_questions))"
    by (simp add: example_questions_def)
  have run: "?agg = [(''Python'', 9), (''Go'', 7)]"
    by (simp add: example_one_by_one_def one_by_one_def example_panel_def
        example_questions_def mount_def onstop_transcribed_def onstop_send_def js_def
        truthy_def handleSubmit_of_def js_or_def handleSubmit_resume_def techQuestions_def
        trim_def isWhiteSpace_def Let_def)
  have rerun: "?again = [(''Python'', 8)]"
    by (simp add: example_resubmitted_def example_panel_def
        example_questions_def mount_def onstop_transcribed_def onstop_send_def js_def
        truthy_def handleSubmit_of_def handleSubmit_def clickSubmitAnswer_def js_get_def
        js_or_def handleSubmit_resume_def techQuestions_def trim_def isWhiteSpace_def Let_def)
  have again: "map_of ?again ''Python'' = Some 8"
    using technology_grade_aggregate [OF a, of example_resubmitted
      "''Senior backend engineer''" "''Alice''" "''Python''", folded example_panel_def]
    by (simp add: example_resubmitted_def example_questions_def tagged_def isWhiteSpace_def)
  note t = technology_grade_aggregate [OF a, of example_one_by_one
      "''Senior backend engineer''" "''Alice''", folded example_panel_def]
  have py: "map_of ?agg ''Python'' = Some 9"
    using t [of "''Python''"]
    by (simp add: example_one_by_one_received example_questions_def tagged_def)
  have go: "map_of ?agg ''Go'' = Some 7"
    using t [of "''Go''"]
    by (simp add: example_one_by_one_received example_questions_def tagged_def)
  have keys: "set (map fst ?agg) = {''Python'', ''Go''}"
    using t [of "''Go''"]
    by (auto simp: example_one_by_one_received example_questions_def)
  have "distinct (map fst ?agg)"
    using t [of "''Go''"] by simp
  then have "length ?agg = card (set (map fst ?agg))"
    using distinct_card [of "map fst ?agg"] by simp
  also have "\<dots> = 2"
    unfolding keys by simp
  finally have "length ?agg = 2" .
  with a run py go keys rerun again show ?thesis by blast
qed

text \<open>
  Claim C6 as stated fails. In \<open>example_overtaken\<close> the questions tagged Python, Go,
  Python are submitted in this order and the evaluation of the first (grade 4) arrives
  last, after that of the third (grade 9): with all three evaluated, Python holds 4, the
  grade submitted first, not the most recently submitted one. In \<open>example_same_text\<close> two technical questions share a
  text and are tagged Python and Go: the evaluation of that text is recorded under
  Python only, so Go, a technology whose question has been evaluated, is not a key.
\<close>

theorem aggregate_holds_first_submitted:
  "received_spec example_overtaken Map.empty [] =
     [(''How do goroutines work?'', \<lparr>grade = 7, feedback = ''Good''\<rparr>),
      (''Explain the GIL'', \<lparr>grade = 9, feedback = ''Precise''\<rparr>),
      (''What is a decorator?'', \<lparr>grade = 4, feedback = ''Vague''\<rparr>)]
   \<and> techStackGrades (fst (evaluations example_overtaken (example_panel, []))) =
       [(''Go'', 7), (''Python'', 4)]
   \<and> techStackGrades (fst (evaluations example_same_text_events
         (mount example_same_text ''Senior backend engineer'' ''Alice'', []))) =
       [(''Python'', 5)]"
  by (simp add: example_overtaken_def example_same_text_events_def example_same_text_def
      example_panel_def example_questions_def mount_def onstop_transcribed_def onstop_send_def
      js_def truthy_def handleSubmit_of_def js_or_def handleSubmit_resume_def techQuestions_def
      trim_def isWhiteSpace_def Let_def)

section \<open>The number of questions\<close>

text \<open>
  Claim C5. The number input declares \<open>min="1"\<close> and \<open>max="20"\<close>, but its \<open>onChange\<close>
  stores any nonzero integer that \<open>parseInt\<close> reads and \<open>handleGenerate\<close> sends
  \<open>numQuestions\<close> unchecked: typing \<open>50\<close> or \<open>-3\<close> sends that value.
\<close>

theorem numQuestions_out_of_range_sent:
  "jd_requests (suspended (clickGenerateQuestions (onChange_numQuestions ''50'' example_typed))) =
     [GenerateQuestions ''Senior backend engineer'' 50 '''']
   \<and> jd_requests (suspended (clickGenerateQuestions (onChange_numQuestions ''-3'' example_typed))) =
     [GenerateQuestions ''Senior backend engineer'' (- 3) '''']"
  by (simp add: example_typed_def onChange_numQuestions_def onChange_jd_def
      onChange_candidateName_def jdInput_mount_def clickGenerateQuestions_def handleGenerate_def
      trim_def isWhiteSpace_def parseInt_def isDigit_def digitValue_def Let_def)

end
